theory Spec2Isabelle
  imports Main "HOL-Library.AList"
begin

section \<open>NAT classifications and tunnel-mode descriptors\<close>

text \<open>
  Modelled from the spec: the library \<^verbatim>\<open>pynat\<close> is not under \<^verbatim>\<open>src/\<close>. The NAT
  classifications are the six constants that the two tunnel modes list in their
  constructors (\<^verbatim>\<open>pynat.OPEN\<close>, ...) and Blocked, the seventh classification of the
  specification (section 4.2).
\<close>

datatype nat_type =
  BLOCKED | OPEN | FULL_CONE | RESTRICTED_CONE | RESTRICTED_PORT | SYMMETRIC | UDP_FIREWALL

text \<open>
  \<^verbatim>\<open>vxlan_utils.py\<close>, \<^verbatim>\<open>TunnelVXLAN.__init__\<close>: the values handed to the constructor of
  the base class.
\<close>

definition vxlan_req_keep_alive_messages :: bool where
  "vxlan_req_keep_alive_messages = True"

definition vxlan_supported_nat_types :: "nat_type list" where
  "vxlan_supported_nat_types = [OPEN, FULL_CONE, RESTRICTED_CONE, RESTRICTED_PORT]"

text \<open>\<^verbatim>\<open>etherws_utils.py\<close>, \<^verbatim>\<open>TunnelEtherWs.__init__\<close>.\<close>

definition etherws_require_keep_alive_messages :: bool where
  "etherws_require_keep_alive_messages = True"

definition etherws_supported_nat_types :: "nat_type list" where
  "etherws_supported_nat_types =
     [OPEN, FULL_CONE, RESTRICTED_CONE, RESTRICTED_PORT, SYMMETRIC, UDP_FIREWALL]"

section \<open>Values shared by the controller model\<close>

type_synonym deviceid = string
type_synonym tenantid = string

text \<open>The exceptions of the Python code that the model can raise.\<close>

datatype py_error = KeyError | AttributeError | TypeError

text \<open>
  The status codes of \<^verbatim>\<open>status_codes_pb2\<close> that \<^verbatim>\<open>pymerang_server.py\<close> names; any
  other code a tunnel mode may return is \<open>STATUS_OTHER\<close>.
\<close>

datatype status = STATUS_SUCCESS | STATUS_UNAUTHORIZED | STATUS_INTERNAL_ERROR | STATUS_OTHER int

text \<open>
  Modelled from the spec: \<^verbatim>\<open>DeviceState\<close> of the storage collaborator, with the six
  states of the specification (section 3).
\<close>

datatype DeviceState = UNKNOWN | REGISTERED | WORKING | REBOOT_REQUIRED | REBOOTING | FAILURE

definition DEFAULT_VXLAN_PORT :: int where
  "DEFAULT_VXLAN_PORT = 4789"

definition MAX_ALLOWED_RECONCILIATION_FAILURES :: int where
  "MAX_ALLOWED_RECONCILIATION_FAILURES = 10000000"

section \<open>The storage collaborator\<close>

text \<open>
  Modelled from the spec: the package \<^verbatim>\<open>srv6_sdn_controller_state\<close> is not under
  \<^verbatim>\<open>src/\<close>. Every operation of this section follows the storage contract of the
  specification (sections 3 and 6) on an explicit table of devices, keyed by device id
  and tenant id: an operation on a device that is not in the table fails (\<open>False\<close> or
  \<open>None\<close>) and changes nothing, an operation on a device of the table succeeds.
\<close>

type_synonym interfaces = "(string \<times> string list \<times> string list) list"

record registration =
  features :: "(string \<times> int) list"
  reg_interfaces :: interfaces
  reg_mgmtip :: string
  sid_prefix :: "string option"
  public_prefix_length :: "int option"
  enable_proxy_ndp :: bool
  force_ip6tnl :: bool
  force_srh :: bool
  incoming_sr_transparency :: "string option"
  outgoing_sr_transparency :: "string option"

record mgmt_info =
  mgmtip :: string
  mgmt_interfaces :: interfaces
  nat_type :: string
  external_ip :: string
  external_port :: int
  mgmt_mac :: string
  vxlan_port :: int

record device =
  registered_as :: registration
  state :: DeviceState
  connected :: bool
  tunnel_mode :: "string option"
  mgmt :: "mgmt_info option"
  private_mgmtip :: "string option"
  reconciliation_flag :: bool
  reconciliation_failures :: int

text \<open>
  The configuration of a tenant is a dictionary; a value is a number or \<^verbatim>\<open>None\<close>. A
  key that is absent and a key that holds \<^verbatim>\<open>None\<close> are different: \<^verbatim>\<open>config.get(key,
  default)\<close> answers the default for the first and \<^verbatim>\<open>None\<close> for the second.
\<close>

type_synonym tenant_config = "string \<rightharpoonup> int option"

definition dict_get :: "tenant_config \<Rightarrow> string \<Rightarrow> int \<Rightarrow> int option" where
  "dict_get config key dflt =
     (case config key of None \<Rightarrow> Some dflt | Some v \<Rightarrow> v)"

record storage =
  devices :: "(deviceid \<times> tenantid) \<rightharpoonup> device"
  tokens :: "string \<rightharpoonup> tenantid"
  tenant_configs :: "tenantid \<rightharpoonup> tenant_config"
  stamp_nodes :: "(deviceid \<times> tenantid) \<rightharpoonup> string"

definition update_device ::
  "deviceid \<Rightarrow> tenantid \<Rightarrow> (device \<Rightarrow> device) \<Rightarrow> storage \<Rightarrow> bool \<times> storage" where
  "update_device deviceid tenantid f s =
     (case devices s (deviceid, tenantid) of
        None \<Rightarrow> (False, s)
      | Some dev \<Rightarrow> (True, s\<lparr>devices := (devices s)((deviceid, tenantid) \<mapsto> f dev)\<rparr>))"

text \<open>
  \<^verbatim>\<open>authenticate_device(token)\<close> returns the pair \<^verbatim>\<open>(authenticated, tenantid)\<close>:
  \<open>None\<close> stands for \<^verbatim>\<open>(False, None)\<close> and \<open>Some t\<close> for \<^verbatim>\<open>(True, t)\<close>.
\<close>

definition db_authenticate_device :: "string \<Rightarrow> storage \<Rightarrow> tenantid option" where
  "db_authenticate_device tok s = tokens s tok"

definition db_device_exists :: "deviceid \<Rightarrow> tenantid \<Rightarrow> storage \<Rightarrow> bool" where
  "db_device_exists deviceid tenantid s = (devices s (deviceid, tenantid) \<noteq> None)"

definition db_get_device :: "deviceid \<Rightarrow> tenantid \<Rightarrow> storage \<Rightarrow> device option" where
  "db_get_device deviceid tenantid s = devices s (deviceid, tenantid)"

text \<open>
  Modelled from the spec: \<^verbatim>\<open>register_device\<close> of the storage collaborator creates the
  device record, in state REGISTERED, not connected, without tunnel mode, with the
  reconciliation flag unset and no reconciliation failure.
\<close>

definition db_register_device :: "deviceid \<Rightarrow> registration \<Rightarrow> tenantid \<Rightarrow> storage \<Rightarrow> storage" where
  "db_register_device deviceid reg tenantid s =
     s\<lparr>devices := (devices s)((deviceid, tenantid) \<mapsto>
        \<lparr>registered_as = reg, state = REGISTERED, connected = False, tunnel_mode = None,
         mgmt = None, private_mgmtip = None, reconciliation_flag = False,
         reconciliation_failures = 0\<rparr>)\<rparr>"

definition db_set_device_reconciliation_flag ::
  "deviceid \<Rightarrow> tenantid \<Rightarrow> bool \<Rightarrow> storage \<Rightarrow> bool \<times> storage" where
  "db_set_device_reconciliation_flag deviceid tenantid flag =
     update_device deviceid tenantid (\<lambda>dev. dev\<lparr>reconciliation_flag := flag\<rparr>)"

text \<open>\<open>None\<close> (no such device) is falsy in the caller's \<^verbatim>\<open>if\<close>.\<close>

definition db_get_device_reconciliation_flag :: "deviceid \<Rightarrow> tenantid \<Rightarrow> storage \<Rightarrow> bool option" where
  "db_get_device_reconciliation_flag deviceid tenantid s =
     map_option reconciliation_flag (devices s (deviceid, tenantid))"

definition db_get_tenant_config :: "tenantid \<Rightarrow> storage \<Rightarrow> tenant_config option" where
  "db_get_tenant_config tenantid s = tenant_configs s tenantid"

definition db_change_device_state ::
  "deviceid \<Rightarrow> tenantid \<Rightarrow> DeviceState \<Rightarrow> storage \<Rightarrow> bool \<times> storage" where
  "db_change_device_state deviceid tenantid new_state =
     update_device deviceid tenantid (\<lambda>dev. dev\<lparr>state := new_state\<rparr>)"

definition db_inc_and_get_reconciliation_failures ::
  "deviceid \<Rightarrow> tenantid \<Rightarrow> storage \<Rightarrow> int option \<times> storage" where
  "db_inc_and_get_reconciliation_failures deviceid tenantid s =
     (case devices s (deviceid, tenantid) of
        None \<Rightarrow> (None, s)
      | Some dev \<Rightarrow>
          (Some (reconciliation_failures dev + 1),
           s\<lparr>devices := (devices s)((deviceid, tenantid) \<mapsto>
              dev\<lparr>reconciliation_failures := reconciliation_failures dev + 1\<rparr>)\<rparr>))"

definition db_reset_reconciliation_failures ::
  "deviceid \<Rightarrow> tenantid \<Rightarrow> storage \<Rightarrow> bool \<times> storage" where
  "db_reset_reconciliation_failures deviceid tenantid =
     update_device deviceid tenantid (\<lambda>dev. dev\<lparr>reconciliation_failures := 0\<rparr>)"

definition db_get_tunnel_mode :: "deviceid \<Rightarrow> tenantid \<Rightarrow> storage \<Rightarrow> string option" where
  "db_get_tunnel_mode deviceid tenantid s =
     (case devices s (deviceid, tenantid) of None \<Rightarrow> None | Some dev \<Rightarrow> tunnel_mode dev)"

definition db_set_tunnel_mode ::
  "deviceid \<Rightarrow> tenantid \<Rightarrow> string option \<Rightarrow> storage \<Rightarrow> bool \<times> storage" where
  "db_set_tunnel_mode deviceid tenantid m =
     update_device deviceid tenantid (\<lambda>dev. dev\<lparr>tunnel_mode := m\<rparr>)"

definition db_get_device_mgmtip :: "tenantid \<Rightarrow> deviceid \<Rightarrow> storage \<Rightarrow> string option" where
  "db_get_device_mgmtip tenantid deviceid s =
     (case devices s (deviceid, tenantid) of None \<Rightarrow> None | Some dev \<Rightarrow> private_mgmtip dev)"

definition db_update_mgmt_info ::
  "deviceid \<Rightarrow> tenantid \<Rightarrow> string \<Rightarrow> interfaces \<Rightarrow> string \<Rightarrow> string \<Rightarrow> string \<Rightarrow> int \<Rightarrow>
   string \<Rightarrow> int \<Rightarrow> storage \<Rightarrow> bool \<times> storage" where
  "db_update_mgmt_info deviceid tenantid ip ifs tunnel_name nat_t ext_ip ext_port vtep_mac port =
     update_device deviceid tenantid
       (\<lambda>dev. dev\<lparr>tunnel_mode := Some tunnel_name,
                  mgmt := Some \<lparr>mgmtip = ip, mgmt_interfaces = ifs, nat_type = nat_t,
                                external_ip = ext_ip, external_port = ext_port,
                                mgmt_mac = vtep_mac, vxlan_port = port\<rparr>\<rparr>)"


definition db_set_device_connected_flag ::
  "deviceid \<Rightarrow> tenantid \<Rightarrow> bool \<Rightarrow> storage \<Rightarrow> bool \<times> storage" where
  "db_set_device_connected_flag deviceid tenantid c =
     update_device deviceid tenantid (\<lambda>dev. dev\<lparr>connected := c\<rparr>)"

text \<open>
  The STAMP nodes, which the controller reaches through
  \<^verbatim>\<open>self.nb_interface_ref.stamp_controller.storage\<close>, are kept in the same record.
\<close>

definition get_stamp_node :: "deviceid \<Rightarrow> tenantid \<Rightarrow> storage \<Rightarrow> string option" where
  "get_stamp_node node_id tenantid s = stamp_nodes s (node_id, tenantid)"

definition update_stamp_node :: "deviceid \<Rightarrow> tenantid \<Rightarrow> string \<Rightarrow> storage \<Rightarrow> storage" where
  "update_stamp_node node_id tenantid grpc_ip s =
     s\<lparr>stamp_nodes := (stamp_nodes s)((node_id, tenantid) \<mapsto> grpc_ip)\<rparr>"

section \<open>The controller\<close>

text \<open>
  The controller reaches its tunnel modes through the registry
  \<^verbatim>\<open>self.tunnel_state.tunnel_modes\<close>, a dictionary from mode names to mode objects. To the
  controller a mode is its keep-alive requirement and the outcome of creating and of
  destroying the controller endpoint, which are parameters here; the objects keep
  their own state and do not write to the storage of the controller.
\<close>

record vtep =
  controller_vtep_mac :: "string option"
  controller_vtep_ip :: "string option"
  device_vtep_ip :: "string option"
  vtep_mask :: "int option"

definition no_vtep :: vtep where
  "no_vtep = \<lparr>controller_vtep_mac = None, controller_vtep_ip = None,
              device_vtep_ip = None, vtep_mask = None\<rparr>"

record endpoint_args =
  arg_deviceid :: deviceid
  arg_tenantid :: tenantid
  arg_device_external_ip :: string
  arg_device_external_port :: int
  arg_vxlan_port :: int
  arg_device_vtep_mac :: string

record tunnel_mode_obj =
  require_keep_alive_messages :: bool
  create_tunnel_controller_endpoint :: "endpoint_args \<Rightarrow> status \<times> vtep"
  destroy_tunnel_controller_endpoint :: "deviceid \<Rightarrow> tenantid \<Rightarrow> status"

text \<open>
  The northbound interface, a parameter too: three steps that return an HTTP-style
  code. What the steps do to the storage is not part of the controller.
\<close>

record nb_interface =
  prepare_db_for_device_reconciliation :: "deviceid \<Rightarrow> tenantid \<Rightarrow> int"
  device_reconciliation :: "deviceid \<Rightarrow> tenantid \<Rightarrow> int"
  overlay_reconciliation :: "deviceid \<Rightarrow> tenantid \<Rightarrow> int"

record controller =
  keep_alive_interval :: int
  max_keep_alive_lost :: int
  tunnel_modes :: "string \<rightharpoonup> tunnel_mode_obj"
  nb_interface_ref :: "nb_interface option"

text \<open>
  The calls to the northbound interface, to the failure handler and to the tunnel modes,
  in the order made.
\<close>

datatype call =
    PrepareDb deviceid tenantid
  | DeviceReconciliation deviceid tenantid
  | OverlayReconciliation deviceid tenantid
  | ReconciliationFailed deviceid tenantid
  | CreateEndpoint string endpoint_args
  | DestroyEndpoint string deviceid tenantid

text \<open>
  A keep-alive thread as \<^verbatim>\<open>Thread(target=utils.start_keep_alive_icmp, args=...)\<close> starts it:
  the probed address, the two parameters, the stop event and the device that its
  callback reports as disconnected.
\<close>

record keep_alive_thread =
  ka_mgmtip :: string
  ka_interval :: int
  ka_max_lost :: int
  ka_stop_event :: nat
  ka_deviceid :: deviceid
  ka_tenantid :: tenantid

text \<open>
  The mutable world of the controller: the storage, the dictionary
  \<^verbatim>\<open>self.connected_devices\<close> from thread ids to stop events, the events created so far
  (an event is a number, \<open>next_event\<close> the next fresh one), the events that have been
  set, the threads started and never joined, and the calls made.
\<close>

record world =
  db :: storage
  connected_devices :: "string \<rightharpoonup> nat"
  next_event :: nat
  events_set :: "nat set"
  threads :: "keep_alive_thread list"
  trace :: "call list"

definition log_call :: "call \<Rightarrow> world \<Rightarrow> world" where
  "log_call c w = w\<lparr>trace := trace w @ [c]\<rparr>"

record auth_data =
  token :: string

definition authenticate_device :: "deviceid \<Rightarrow> auth_data \<Rightarrow> world \<Rightarrow> tenantid option" where
  "authenticate_device deviceid auth w =
     (case db_authenticate_device (token auth) (db w) of
        None \<Rightarrow> None
      | Some tenantid \<Rightarrow> Some tenantid)"

text \<open>
  \<^verbatim>\<open>register_device\<close> returns \<^verbatim>\<open>(status, vxlan_port, tenantid)\<close>; the port is
  \<^verbatim>\<open>config.get('vxlan_port', DEFAULT_VXLAN_PORT)\<close>, which is \<^verbatim>\<open>None\<close> when the
  configuration holds \<^verbatim>\<open>None\<close> under that key.
\<close>

definition register_device ::
  "deviceid \<Rightarrow> registration \<Rightarrow> auth_data \<Rightarrow> world \<Rightarrow>
   (status \<times> int option \<times> tenantid option) \<times> world" where
  "register_device deviceid reg auth w =
     (case authenticate_device deviceid auth w of
        None \<Rightarrow> ((STATUS_UNAUTHORIZED, None, None), w)
      | Some tenantid \<Rightarrow>
          (let s = (if db_device_exists deviceid tenantid (db w)
                    then snd (db_set_device_reconciliation_flag deviceid tenantid True (db w))
                    else db_register_device deviceid reg tenantid (db w));
               w' = w\<lparr>db := s\<rparr>
           in case db_get_tenant_config tenantid s of
                None \<Rightarrow> ((STATUS_INTERNAL_ERROR, None, None), w')
              | Some config \<Rightarrow>
                  ((STATUS_SUCCESS, dict_get config ''vxlan_port'' DEFAULT_VXLAN_PORT,
                    Some tenantid), w')))"

text \<open>
  \<^verbatim>\<open>reconciliation_failed\<close> returns \<^verbatim>\<open>STATUS_INTERNAL_ERROR\<close> or falls off its end
  (\<open>None\<close>). The branch on \<^verbatim>\<open>can_reboot_device\<close> only chooses a log message.
  \<^verbatim>\<open>failures >= MAX_ALLOWED_RECONCILIATION_FAILURES\<close> raises TypeError when the storage
  returned \<^verbatim>\<open>None\<close>.
\<close>

definition reconciliation_failed ::
  "deviceid \<Rightarrow> tenantid \<Rightarrow> world \<Rightarrow> (py_error + status option) \<times> world" where
  "reconciliation_failed deviceid tenantid w =
     (let (success, s1) = db_change_device_state deviceid tenantid REBOOT_REQUIRED (db w)
      in if \<not> success then (Inr (Some STATUS_INTERNAL_ERROR), w\<lparr>db := s1\<rparr>)
         else
           (case db_inc_and_get_reconciliation_failures deviceid tenantid s1 of
              (None, s2) \<Rightarrow> (Inl TypeError, w\<lparr>db := s2\<rparr>)
            | (Some failures, s2) \<Rightarrow>
                if failures \<ge> MAX_ALLOWED_RECONCILIATION_FAILURES then
                  (let (success, s3) = db_change_device_state deviceid tenantid FAILURE s2
                   in if \<not> success then (Inr (Some STATUS_INTERNAL_ERROR), w\<lparr>db := s3\<rparr>)
                      else (Inr None, w\<lparr>db := s3\<rparr>))
                else (Inr None, w\<lparr>db := s2\<rparr>)))"

text \<open>
  \<^verbatim>\<open>update_mgmt_info\<close>, the keep-alive part: the stop event registered under the thread
  id, if any, is set; a new event is created and stored under the thread id; a thread
  is started if the tunnel mode requires keep-alive messages. Nothing waits for the
  thread of the former event.
\<close>

definition start_keep_alive_session ::
  "controller \<Rightarrow> tunnel_mode_obj \<Rightarrow> deviceid \<Rightarrow> tenantid \<Rightarrow> string \<Rightarrow> world \<Rightarrow> world" where
  "start_keep_alive_session self tm deviceid tenantid ip w =
     (let thread_id = tenantid @ ''/'' @ deviceid;
          w1 = (case connected_devices w thread_id of
                  None \<Rightarrow> w
                | Some ev \<Rightarrow> w\<lparr>events_set := insert ev (events_set w)\<rparr>);
          stop_event = next_event w1;
          w2 = w1\<lparr>next_event := Suc stop_event,
                  connected_devices := (connected_devices w1)(thread_id \<mapsto> stop_event)\<rparr>
      in if require_keep_alive_messages tm
         then w2\<lparr>threads := threads w2 @
                [\<lparr>ka_mgmtip = ip, ka_interval = keep_alive_interval self,
                  ka_max_lost = max_keep_alive_lost self, ka_stop_event = stop_event,
                  ka_deviceid = deviceid, ka_tenantid = tenantid\<rparr>]\<rparr>
         else w2)"

text \<open>
  \<^verbatim>\<open>update_mgmt_info\<close>, the first part: the endpoint of the tunnel mode that the storage
  holds for the device is destroyed. \<open>Inl\<close> is an early exit of the operation, \<open>Inr\<close>
  the world with which it goes on.
\<close>

definition destroy_old_tunnel ::
  "controller \<Rightarrow> deviceid \<Rightarrow> tenantid \<Rightarrow> world \<Rightarrow>
   ((py_error + status \<times> vtep) \<times> world) + world" where
  "destroy_old_tunnel self deviceid tenantid w =
     (case db_get_tunnel_mode deviceid tenantid (db w) of
        None \<Rightarrow> Inr w
      | Some old \<Rightarrow>
          (case tunnel_modes self old of
             None \<Rightarrow> Inl (Inl KeyError, w)
           | Some old_tunnel_mode \<Rightarrow>
               (let res = destroy_tunnel_controller_endpoint old_tunnel_mode deviceid tenantid;
                    w1 = log_call (DestroyEndpoint old deviceid tenantid) w
                in if res \<noteq> STATUS_SUCCESS then Inl (Inr (res, no_vtep), w1)
                   else Inr (w1\<lparr>db := snd (db_set_tunnel_mode deviceid tenantid None (db w1))\<rparr>))))"

text \<open>
  \<^verbatim>\<open>update_mgmt_info\<close> returns \<^verbatim>\<open>(status, controller_vtep_mac, controller_vtep_ip,
  device_vtep_ip, vtep_mask)\<close>; \<open>no_vtep\<close> is the four \<^verbatim>\<open>None\<close> of a failure. A tunnel
  mode name that is not in the registry raises KeyError, a missing northbound interface
  AttributeError. \<^verbatim>\<open>split('/')[0]\<close> is the text before the first slash.
\<close>

definition update_mgmt_info ::
  "controller \<Rightarrow> deviceid \<Rightarrow> tenantid \<Rightarrow> interfaces \<Rightarrow> string \<Rightarrow> string \<Rightarrow> string \<Rightarrow>
   string \<Rightarrow> int \<Rightarrow> string \<Rightarrow> int \<Rightarrow> world \<Rightarrow> (py_error + status \<times> vtep) \<times> world" where
  "update_mgmt_info self deviceid tenantid ifs seen_mgmtip tunnel_name nat_t
       device_external_ip device_external_port device_vtep_mac port w =
     (case destroy_old_tunnel self deviceid tenantid w of
        Inl early \<Rightarrow> early
      | Inr w1 \<Rightarrow>
         (case tunnel_modes self tunnel_name of
            None \<Rightarrow> (Inl KeyError, w1)
          | Some tm \<Rightarrow>
             (let args = \<lparr>arg_deviceid = deviceid, arg_tenantid = tenantid,
                          arg_device_external_ip = device_external_ip,
                          arg_device_external_port = device_external_port,
                          arg_vxlan_port = port, arg_device_vtep_mac = device_vtep_mac\<rparr>;
                  (res, v) = create_tunnel_controller_endpoint tm args;
                  w2 = log_call (CreateEndpoint tunnel_name args) w1
              in if res \<noteq> STATUS_SUCCESS then (Inr (res, no_vtep), w2)
                 else
                  (let ip = (case db_get_device_mgmtip tenantid deviceid (db w2) of
                               None \<Rightarrow> seen_mgmtip
                             | Some a \<Rightarrow> takeWhile (\<lambda>c. c \<noteq> CHR ''/'') a);
                       w3 = start_keep_alive_session self tm deviceid tenantid ip w2;
                       (success, s4) = db_update_mgmt_info deviceid tenantid ip ifs tunnel_name
                                         nat_t device_external_ip device_external_port
                                         device_vtep_mac port (db w3)
                   in if \<not> success then (Inr (STATUS_INTERNAL_ERROR, no_vtep), w3\<lparr>db := s4\<rparr>)
                      else
                       (let (success, s5) = db_set_device_connected_flag deviceid tenantid True s4
                        in if \<not> success
                           then (Inr (STATUS_INTERNAL_ERROR, no_vtep), w3\<lparr>db := s5\<rparr>)
                           else
                            (case nb_interface_ref self of
                               None \<Rightarrow> (Inl AttributeError, w3\<lparr>db := s5\<rparr>)
                             | Some nb \<Rightarrow>
                                (let s6 = (case get_stamp_node deviceid tenantid s5 of
                                             None \<Rightarrow> s5
                                           | Some n \<Rightarrow> update_stamp_node deviceid tenantid ip s5);
                                     (success, s7) =
                                        db_change_device_state deviceid tenantid WORKING s6
                                 in if \<not> success
                                    then (Inr (STATUS_INTERNAL_ERROR, no_vtep), w3\<lparr>db := s7\<rparr>)
                                    else (Inr (STATUS_SUCCESS, v), w3\<lparr>db := s7\<rparr>))))))))"


text \<open>
  Modelled from the spec: \<^verbatim>\<open>RollbackContext\<close> of the library \<^verbatim>\<open>rollbackcontext\<close> is not
  under \<^verbatim>\<open>src/\<close> (specification, section 4.4). \<^verbatim>\<open>push\<close> puts an action on the stack,
  \<^verbatim>\<open>commitAll\<close> empties the stack, and leaving the \<^verbatim>\<open>with\<close> block, by a return, an
  exception or its end, runs the actions that are on the stack. The only action pushed
  is \<^verbatim>\<open>reconciliation_failed\<close>.
\<close>

datatype rollback_action = RollbackReconciliationFailed deviceid tenantid

fun run_rollback :: "rollback_action list \<Rightarrow> world \<Rightarrow> world" where
  "run_rollback [] w = w"
| "run_rollback (RollbackReconciliationFailed deviceid tenantid # rest) w =
     run_rollback rest
       (snd (reconciliation_failed deviceid tenantid
               (log_call (ReconciliationFailed deviceid tenantid) w)))"

text \<open>How the body of the \<^verbatim>\<open>with\<close> block ends.\<close>

datatype block_end = Returned int | Raised py_error | Completed

definition reconciliation_block ::
  "controller \<Rightarrow> deviceid \<Rightarrow> tenantid \<Rightarrow> world \<Rightarrow> block_end \<times> rollback_action list \<times> world" where
  "reconciliation_block self deviceid tenantid w =
     (let rollback = [RollbackReconciliationFailed deviceid tenantid]
      in case nb_interface_ref self of
           None \<Rightarrow> (Raised AttributeError, rollback, w)
         | Some nb \<Rightarrow>
            (let res = prepare_db_for_device_reconciliation nb deviceid tenantid;
                 w1 = log_call (PrepareDb deviceid tenantid) w
             in if res \<noteq> 200 then (Returned res, rollback, w1)
                else
                 (let res = device_reconciliation nb deviceid tenantid;
                      w2 = log_call (DeviceReconciliation deviceid tenantid) w1
                  in if res \<noteq> 200 then (Returned res, rollback, w2)
                     else
                      (let res = overlay_reconciliation nb deviceid tenantid;
                           w3 = log_call (OverlayReconciliation deviceid tenantid) w2
                       in if res \<noteq> 200 then (Returned res, rollback, w3)
                          else
                           (Completed, [],
                            w3\<lparr>db := snd (db_set_device_reconciliation_flag deviceid tenantid
                                             False (db w3))\<rparr>)))))"

text \<open>
  \<^verbatim>\<open>exec_reconciliation\<close> returns the code of the failed step (\<open>StepCode\<close>) or a status.
\<close>

datatype reconciliation_result = StepCode int | Status status

definition reset_failures_counter ::
  "deviceid \<Rightarrow> tenantid \<Rightarrow> world \<Rightarrow> (py_error + reconciliation_result) \<times> world" where
  "reset_failures_counter deviceid tenantid w =
     (let (success, s) = db_reset_reconciliation_failures deviceid tenantid (db w)
      in if \<not> success then (Inr (Status STATUS_INTERNAL_ERROR), w\<lparr>db := s\<rparr>)
         else (Inr (Status STATUS_SUCCESS), w\<lparr>db := s\<rparr>))"

definition exec_reconciliation ::
  "controller \<Rightarrow> deviceid \<Rightarrow> tenantid \<Rightarrow> world \<Rightarrow> (py_error + reconciliation_result) \<times> world" where
  "exec_reconciliation self deviceid tenantid w =
     (if db_get_device_reconciliation_flag deviceid tenantid (db w) = Some True then
        (case reconciliation_block self deviceid tenantid w of
           (ended, rollback, w1) \<Rightarrow>
             (let w2 = run_rollback rollback w1
              in case ended of
                   Returned res \<Rightarrow> (Inr (StepCode res), w2)
                 | Raised e \<Rightarrow> (Inl e, w2)
                 | Completed \<Rightarrow> reset_failures_counter deviceid tenantid w2))
      else reset_failures_counter deviceid tenantid w)"

section \<open>The VXLAN tunnel mode\<close>

definition VXLAN_DSTPORT :: int where
  "VXLAN_DSTPORT = 4789"

definition ENABLE_UDP_CSUM :: bool where
  "ENABLE_UDP_CSUM = True"

definition MGMT_VNI :: nat where
  "MGMT_VNI = 0"

text \<open>
  An address is the text \<^verbatim>\<open>ip/mask\<close> that the allocator hands out, kept as the pair of
  the host number in the management network and the prefix length. The slot of an
  address is \<^verbatim>\<open>0\<close> for the VTEP of the controller and the device id otherwise.
\<close>

type_synonym address = "nat \<times> nat"

datatype slot = Controller | Device deviceid

datatype address_family = AF_INET | AF_INET6

record pool =
  prefixlen :: nat
  next_host :: nat
  released :: "nat list"

text \<open>The calls to the operating system, in the order made.\<close>

datatype net_call =
    CreateVxlan string nat string int int int bool bool bool bool
  | EnableInterface string
  | AddAddress string nat nat
  | DelAddress string nat nat
  | CreateFdbEntry string string string int
  | RemoveFdbEntry string "string option"
  | CreateIpNeigh string string nat
  | RemoveIpNeigh string nat
  | RemoveInterface string

record tunnel_info =
  ti_device_id :: deviceid
  ti_tenantid :: tenantid
  ti_device_external_ip :: string
  ti_device_external_port :: int
  ti_device_vtep_mac :: string
  ti_vxlan_port :: int
  ti_controller_vtep_mac :: "string option"
  ti_controller_vtep_ip :: "nat option"
  ti_device_vtep_ip :: "nat option"
  ti_vtep_mask :: "nat option"

text \<open>
  The object: the fields set by \<^verbatim>\<open>TunnelVXLAN.__init__\<close> and those of the base class
  \<^verbatim>\<open>tunnel_utils.TunnelMode\<close> that the methods use, and the calls made to the operating
  system.
\<close>

record TunnelVXLAN =
  name :: string
  controller_ip :: string
  ipv4_address_allocator :: pool
  ipv6_address_allocator :: pool
  initiated :: "tenantid set"
  device_to_mac_addr :: "deviceid \<rightharpoonup> string"
  device_to_mgmt_ipv4 :: "tenantid \<rightharpoonup> (slot \<times> address) list"
  device_to_mgmt_ipv6 :: "tenantid \<rightharpoonup> (slot \<times> address) list"
  ipv4_pools :: "tenantid \<rightharpoonup> pool"
  ipv6_pools :: "tenantid \<rightharpoonup> pool"
  net :: "net_call list"

text \<open>
  What the operating system and \<^verbatim>\<open>tunnel_utils\<close> answer: the family of an address
  text (\<open>None\<close> when it is no address) and the MAC address of an interface.
\<close>

record os_env =
  getAddressFamily :: "string \<Rightarrow> address_family option"
  get_mac_address :: "string \<Rightarrow> string"

definition log_net :: "net_call \<Rightarrow> TunnelVXLAN \<Rightarrow> TunnelVXLAN" where
  "log_net c s = s\<lparr>net := net s @ [c]\<rparr>"

text \<open>
  Modelled from the spec: \<^verbatim>\<open>init_tenantid\<close> of the base class, which is not under
  \<^verbatim>\<open>src/\<close>, creates the address maps and the address pools of a tenant (section 3:
  pool entries are created on the first device of a tenant).
\<close>

definition init_tenantid :: "tenantid \<Rightarrow> TunnelVXLAN \<Rightarrow> TunnelVXLAN" where
  "init_tenantid tenantid s =
     s\<lparr>device_to_mgmt_ipv4 := (device_to_mgmt_ipv4 s)(tenantid \<mapsto> []),
       device_to_mgmt_ipv6 := (device_to_mgmt_ipv6 s)(tenantid \<mapsto> []),
       ipv4_pools := (ipv4_pools s)(tenantid \<mapsto> ipv4_address_allocator s),
       ipv6_pools := (ipv6_pools s)(tenantid \<mapsto> ipv6_address_allocator s)\<rparr>"

text \<open>
  Modelled from the spec: \<^verbatim>\<open>release_tenantid\<close> of the base class releases the address
  pools of a tenant (section 4.2).
\<close>

definition release_tenantid :: "tenantid \<Rightarrow> TunnelVXLAN \<Rightarrow> TunnelVXLAN" where
  "release_tenantid tenantid s =
     s\<lparr>device_to_mgmt_ipv4 := (device_to_mgmt_ipv4 s)(tenantid := None),
       device_to_mgmt_ipv6 := (device_to_mgmt_ipv6 s)(tenantid := None),
       ipv4_pools := (ipv4_pools s)(tenantid := None),
       ipv6_pools := (ipv6_pools s)(tenantid := None)\<rparr>"

text \<open>
  Modelled from the spec: the address allocator of the base class (section 4.3) yields
  the next unused host address of the tenant, a released one first.
\<close>

definition next_address :: "pool \<Rightarrow> address \<times> pool" where
  "next_address p =
     (case released p of
        [] \<Rightarrow> ((next_host p, prefixlen p), p\<lparr>next_host := Suc (next_host p)\<rparr>)
      | h # hs \<Rightarrow> ((h, prefixlen p), p\<lparr>released := hs\<rparr>))"

definition release_address :: "address \<Rightarrow> pool \<Rightarrow> pool" where
  "release_address a p = p\<lparr>released := fst a # released p\<rparr>"

text \<open>
  Modelled from the spec: \<^verbatim>\<open>get_new_mgmt_ipv4\<close> and \<^verbatim>\<open>get_new_mgmt_ipv6\<close> of the base
  class return the address of a slot of a tenant, the same at every call (section 3: a
  stable slot per device, slot 0 for the controller), and allocate it at the first
  call. A tenant without address map or pool is a KeyError of the dictionary.
\<close>

definition get_new_mgmt_ipv4 ::
  "slot \<Rightarrow> tenantid \<Rightarrow> TunnelVXLAN \<Rightarrow> (py_error + address) \<times> TunnelVXLAN" where
  "get_new_mgmt_ipv4 device_id tenantid s =
     (case device_to_mgmt_ipv4 s tenantid of
        None \<Rightarrow> (Inl KeyError, s)
      | Some m \<Rightarrow>
         (case map_of m device_id of
            Some a \<Rightarrow> (Inr a, s)
          | None \<Rightarrow>
             (case ipv4_pools s tenantid of
                None \<Rightarrow> (Inl KeyError, s)
              | Some p \<Rightarrow>
                 (let (a, p') = next_address p
                  in (Inr a,
                      s\<lparr>device_to_mgmt_ipv4 :=
                          (device_to_mgmt_ipv4 s)(tenantid \<mapsto> AList.update device_id a m),
                        ipv4_pools := (ipv4_pools s)(tenantid \<mapsto> p')\<rparr>)))))"

definition get_new_mgmt_ipv6 ::
  "slot \<Rightarrow> tenantid \<Rightarrow> TunnelVXLAN \<Rightarrow> (py_error + address) \<times> TunnelVXLAN" where
  "get_new_mgmt_ipv6 device_id tenantid s =
     (case device_to_mgmt_ipv6 s tenantid of
        None \<Rightarrow> (Inl KeyError, s)
      | Some m \<Rightarrow>
         (case map_of m device_id of
            Some a \<Rightarrow> (Inr a, s)
          | None \<Rightarrow>
             (case ipv6_pools s tenantid of
                None \<Rightarrow> (Inl KeyError, s)
              | Some p \<Rightarrow>
                 (let (a, p') = next_address p
                  in (Inr a,
                      s\<lparr>device_to_mgmt_ipv6 :=
                          (device_to_mgmt_ipv6 s)(tenantid \<mapsto> AList.update device_id a m),
                        ipv6_pools := (ipv6_pools s)(tenantid \<mapsto> p')\<rparr>)))))"

text \<open>
  Modelled from the spec: \<^verbatim>\<open>release_ipv4_address\<close> and \<^verbatim>\<open>release_ipv6_address\<close> of
  the base class return the address of a device, if it has one, to the free set of the
  tenant (section 4.3).
\<close>

definition release_ipv4_address :: "deviceid \<Rightarrow> tenantid \<Rightarrow> TunnelVXLAN \<Rightarrow> TunnelVXLAN" where
  "release_ipv4_address device_id tenantid s =
     (case device_to_mgmt_ipv4 s tenantid of
        None \<Rightarrow> s
      | Some m \<Rightarrow>
         (case map_of m (Device device_id) of
            None \<Rightarrow> s
          | Some a \<Rightarrow>
              s\<lparr>device_to_mgmt_ipv4 :=
                  (device_to_mgmt_ipv4 s)(tenantid \<mapsto> AList.delete (Device device_id) m),
                ipv4_pools := (ipv4_pools s)(tenantid := map_option (release_address a)
                                                           (ipv4_pools s tenantid))\<rparr>))"

definition release_ipv6_address :: "deviceid \<Rightarrow> tenantid \<Rightarrow> TunnelVXLAN \<Rightarrow> TunnelVXLAN" where
  "release_ipv6_address device_id tenantid s =
     (case device_to_mgmt_ipv6 s tenantid of
        None \<Rightarrow> s
      | Some m \<Rightarrow>
         (case map_of m (Device device_id) of
            None \<Rightarrow> s
          | Some a \<Rightarrow>
              s\<lparr>device_to_mgmt_ipv6 :=
                  (device_to_mgmt_ipv6 s)(tenantid \<mapsto> AList.delete (Device device_id) m),
                ipv6_pools := (ipv6_pools s)(tenantid := map_option (release_address a)
                                                           (ipv6_pools s tenantid))\<rparr>))"

text \<open>
  Modelled from the spec: \<^verbatim>\<open>num_addresses\<close> of the base class counts the addresses
  held by the devices of a tenant (section 4.2: the tenant has no remaining device).
\<close>

definition num_addresses :: "tenantid \<Rightarrow> TunnelVXLAN \<Rightarrow> nat" where
  "num_addresses tenantid s =
     length (filter (\<lambda>e. fst e \<noteq> Controller)
               (case device_to_mgmt_ipv4 s tenantid of None \<Rightarrow> [] | Some m \<Rightarrow> m))
     + length (filter (\<lambda>e. fst e \<noteq> Controller)
               (case device_to_mgmt_ipv6 s tenantid of None \<Rightarrow> [] | Some m \<Rightarrow> m))"

text \<open>Modelled from the spec: \<^verbatim>\<open>get_device_vtep_mac\<close> of the base class.\<close>

definition get_device_vtep_mac :: "deviceid \<Rightarrow> TunnelVXLAN \<Rightarrow> string option" where
  "get_device_vtep_mac device_id s = device_to_mac_addr s device_id"

text \<open>\<^verbatim>\<open>vxlan_utils.py\<close>, the three getters of \<^verbatim>\<open>TunnelVXLAN\<close>.\<close>

definition get_device_mgmtipv6 :: "tenantid \<Rightarrow> slot \<Rightarrow> TunnelVXLAN \<Rightarrow> address option" where
  "get_device_mgmtipv6 tenantid device_id s =
     (case device_to_mgmt_ipv6 s tenantid of None \<Rightarrow> None | Some m \<Rightarrow> map_of m device_id)"

definition get_device_mgmtipv4 :: "tenantid \<Rightarrow> slot \<Rightarrow> TunnelVXLAN \<Rightarrow> address option" where
  "get_device_mgmtipv4 tenantid device_id s =
     (case device_to_mgmt_ipv4 s tenantid of None \<Rightarrow> None | Some m \<Rightarrow> map_of m device_id)"

definition get_device_mgmtip :: "tenantid \<Rightarrow> slot \<Rightarrow> TunnelVXLAN \<Rightarrow> address option" where
  "get_device_mgmtip tenantid0 device_id s =
     (let tenantid = ''0''
      in case get_device_mgmtipv4 tenantid device_id s of
           None \<Rightarrow> get_device_mgmtipv6 tenantid device_id s
         | Some addr \<Rightarrow> Some addr)"


text \<open>
  \<^verbatim>\<open>create_tunnel_controller_endpoint\<close>, the block run for a tenant id that is not
  in \<^verbatim>\<open>self.initiated\<close>: the first tunnel creates the VXLAN interface and gives it the
  two addresses of the controller. The result is the exception raised, if any.
\<close>

definition create_first_tunnel ::
  "tenantid \<Rightarrow> string \<Rightarrow> TunnelVXLAN \<Rightarrow> py_error option \<times> TunnelVXLAN" where
  "create_first_tunnel tenantid vxlan_name s =
     (let s1 = init_tenantid tenantid (s\<lparr>initiated := insert tenantid (initiated s)\<rparr>)
      in case get_new_mgmt_ipv6 Controller tenantid s1 of
           (Inl e, s2) \<Rightarrow> (Some e, s2)
         | (Inr (controller_vtep_ipv6, vtep_mask_ipv6), s2) \<Rightarrow>
            (case get_new_mgmt_ipv4 Controller tenantid s2 of
               (Inl e, s3) \<Rightarrow> (Some e, s3)
             | (Inr (controller_vtep_ipv4, vtep_mask_ipv4), s3) \<Rightarrow>
                (None,
                 log_net (AddAddress vxlan_name controller_vtep_ipv4 vtep_mask_ipv4)
                  (log_net (AddAddress vxlan_name controller_vtep_ipv6 vtep_mask_ipv6)
                    (log_net (EnableInterface vxlan_name)
                      (log_net (CreateVxlan vxlan_name MGMT_VNI (controller_ip s3)
                                  VXLAN_DSTPORT VXLAN_DSTPORT (VXLAN_DSTPORT + 1)
                                  ENABLE_UDP_CSUM ENABLE_UDP_CSUM (\<not> ENABLE_UDP_CSUM) False)
                         s3))))))"

text \<open>
  The addresses of the two VTEPs in the family of the external address of the device:
  \<^verbatim>\<open>(controller_vtep_ip, device_vtep_ip, vtep_mask)\<close>.
\<close>

definition vtep_addresses ::
  "address_family \<Rightarrow> deviceid \<Rightarrow> tenantid \<Rightarrow> TunnelVXLAN \<Rightarrow>
   (py_error + nat \<times> nat \<times> nat) \<times> TunnelVXLAN" where
  "vtep_addresses family device_id tenantid s =
     (case (case family of
              AF_INET6 \<Rightarrow> get_new_mgmt_ipv6 Controller tenantid s
            | AF_INET \<Rightarrow> get_new_mgmt_ipv4 Controller tenantid s) of
        (Inl e, s1) \<Rightarrow> (Inl e, s1)
      | (Inr (c_vtep_ip, m), s1) \<Rightarrow>
         (case (case family of
                  AF_INET6 \<Rightarrow> get_new_mgmt_ipv6 (Device device_id) tenantid s1
                | AF_INET \<Rightarrow> get_new_mgmt_ipv4 (Device device_id) tenantid s1) of
            (Inl e, s2) \<Rightarrow> (Inl e, s2)
          | (Inr (d_vtep_ip, vmask), s2) \<Rightarrow>
              (Inr (c_vtep_ip, d_vtep_ip, vmask), s2)))"

text \<open>
  \<^verbatim>\<open>TunnelVXLAN.create_tunnel_controller_endpoint\<close>. The tenant id of the request is
  not read: \<^verbatim>\<open>tenantid = '0'\<close>. The interface name is \<^verbatim>\<open>'%s-%s' % (self.name, vni)\<close>
  with \<^verbatim>\<open>vni = MGMT_VNI = 0\<close>.
\<close>

definition vxlan_create_tunnel_controller_endpoint ::
  "os_env \<Rightarrow> tunnel_info \<Rightarrow> TunnelVXLAN \<Rightarrow> (py_error + status) \<times> tunnel_info \<times> TunnelVXLAN" where
  "vxlan_create_tunnel_controller_endpoint env tunnel_info s =
     (let device_id = ti_device_id tunnel_info;
          device_external_ip = ti_device_external_ip tunnel_info;
          device_vtep_mac = ti_device_vtep_mac tunnel_info;
          port = ti_vxlan_port tunnel_info;
          tenantid = ''0'';
          vxlan_name = name s @ ''-0''
      in case (if tenantid \<notin> initiated s then create_first_tunnel tenantid vxlan_name s
               else (None, s)) of
           (Some e, s1) \<Rightarrow> (Inl e, tunnel_info, s1)
         | (None, s1) \<Rightarrow>
            (let s2 = s1\<lparr>device_to_mac_addr := (device_to_mac_addr s1)(device_id \<mapsto> device_vtep_mac)\<rparr>
             in case getAddressFamily env device_external_ip of
                  None \<Rightarrow> (Inr STATUS_INTERNAL_ERROR, tunnel_info, s2)
                | Some family \<Rightarrow>
                   (case vtep_addresses family device_id tenantid s2 of
                      (Inl e, s3) \<Rightarrow> (Inl e, tunnel_info, s3)
                    | (Inr (c_vtep_ip, d_vtep_ip, vmask), s3) \<Rightarrow>
                       (Inr STATUS_SUCCESS,
                        tunnel_info\<lparr>ti_controller_vtep_mac := Some (get_mac_address env vxlan_name),
                                    ti_controller_vtep_ip := Some c_vtep_ip,
                                    ti_device_vtep_ip := Some d_vtep_ip,
                                    ti_vtep_mask := Some vmask\<rparr>,
                        log_net (CreateIpNeigh vxlan_name device_vtep_mac d_vtep_ip)
                          (log_net (CreateFdbEntry vxlan_name device_vtep_mac
                                      device_external_ip port) s3)))))"

text \<open>
  \<^verbatim>\<open>destroy_tunnel_controller_endpoint\<close>, the block run when the tenant has no address
  left: the addresses of the controller are removed from the interface, the interface
  is removed and the tenant id released. \<^verbatim>\<open>split\<close> of \<^verbatim>\<open>None\<close> raises AttributeError,
  \<^verbatim>\<open>self.initiated.remove\<close> of a missing element KeyError.
\<close>

definition destroy_last_tunnel ::
  "tenantid \<Rightarrow> string \<Rightarrow> TunnelVXLAN \<Rightarrow> py_error option \<times> TunnelVXLAN" where
  "destroy_last_tunnel tenantid vxlan_name s =
     (case get_device_mgmtipv4 tenantid Controller s of
        None \<Rightarrow> (Some AttributeError, s)
      | Some (controller_vtep_ipv4, vtep_mask_ipv4) \<Rightarrow>
         (let s1 = log_net (DelAddress vxlan_name controller_vtep_ipv4 vtep_mask_ipv4) s
          in case get_device_mgmtipv6 tenantid Controller s1 of
               None \<Rightarrow> (Some AttributeError, s1)
             | Some (controller_vtep_ipv6, vtep_mask_ipv6) \<Rightarrow>
                (let s2 = release_tenantid tenantid
                            (log_net (RemoveInterface vxlan_name)
                               (log_net (DelAddress vxlan_name controller_vtep_ipv6
                                           vtep_mask_ipv6) s1))
                 in if tenantid \<in> initiated s2
                    then (None, s2\<lparr>initiated := initiated s2 - {tenantid}\<rparr>)
                    else (Some KeyError, s2))))"

text \<open>
  \<^verbatim>\<open>TunnelVXLAN.destroy_tunnel_controller_endpoint\<close>. Here too \<^verbatim>\<open>tenantid = '0'\<close>.
\<close>

definition vxlan_destroy_tunnel_controller_endpoint ::
  "tunnel_info \<Rightarrow> TunnelVXLAN \<Rightarrow> (py_error + status) \<times> TunnelVXLAN" where
  "vxlan_destroy_tunnel_controller_endpoint tunnel_info s =
     (let device_id = ti_device_id tunnel_info;
          tenantid = ''0'';
          vxlan_name = name s @ ''-0''
      in case get_device_mgmtip tenantid (Device device_id) s of
           None \<Rightarrow> (Inl AttributeError, s)
         | Some (d_vtep_ip, m) \<Rightarrow>
            (let s1 = log_net (RemoveIpNeigh vxlan_name d_vtep_ip) s;
                 device_vtep_mac = get_device_vtep_mac device_id s1;
                 s2 = log_net (RemoveFdbEntry vxlan_name device_vtep_mac) s1;
                 s3 = release_ipv4_address device_id tenantid s2;
                 s4 = release_ipv6_address device_id tenantid s3
             in if num_addresses tenantid s4 = 0
                then (case destroy_last_tunnel tenantid vxlan_name s4 of
                        (Some e, s5) \<Rightarrow> (Inl e, s5)
                      | (None, s5) \<Rightarrow> (Inr STATUS_SUCCESS, s5))
                else (Inr STATUS_SUCCESS, s4)))"

text \<open>The state that the object keeps under a tenant id.\<close>

definition tenant_state ::
  "TunnelVXLAN \<Rightarrow> tenantid \<Rightarrow>
   (slot \<times> address) list option \<times> (slot \<times> address) list option \<times> pool option \<times> pool option \<times> bool" where
  "tenant_state s tenantid =
     (device_to_mgmt_ipv4 s tenantid, device_to_mgmt_ipv6 s tenantid,
      ipv4_pools s tenantid, ipv6_pools s tenantid, tenantid \<in> initiated s)"

text \<open>
  The object without what it keeps under the other tenant ids: running an operation on
  it shows what the operation reads.
\<close>

definition only_tenant :: "tenantid \<Rightarrow> TunnelVXLAN \<Rightarrow> TunnelVXLAN" where
  "only_tenant k s =
     s\<lparr>initiated := initiated s \<inter> {k},
       device_to_mgmt_ipv4 := device_to_mgmt_ipv4 s |` {k},
       device_to_mgmt_ipv6 := device_to_mgmt_ipv6 s |` {k},
       ipv4_pools := ipv4_pools s |` {k},
       ipv6_pools := ipv6_pools s |` {k}\<rparr>"

section \<open>Concrete inputs\<close>

text \<open>
  A storage with one device \<open>d1\<close> of tenant \<open>t1\<close>, connected through the mode
  \<open>vxlan\<close>, one failure short of the ceiling; a registry with that one mode, whose
  endpoint creation fails on an external address without a family, as the VXLAN mode
  does; a northbound interface whose steps succeed, and one whose device
  reconciliation fails.
\<close>

definition example_registration :: registration where
  "example_registration =
     \<lparr>features = [], reg_interfaces = [], reg_mgmtip = ''203.0.113.5'', sid_prefix = None,
      public_prefix_length = Some 128, enable_proxy_ndp = True, force_ip6tnl = False,
      force_srh = False, incoming_sr_transparency = Some ''t0'',
      outgoing_sr_transparency = Some ''t0''\<rparr>"

definition example_device :: device where
  "example_device =
     \<lparr>registered_as = example_registration, state = WORKING, connected = True,
      tunnel_mode = Some ''vxlan'', mgmt = None, private_mgmtip = Some ''10.0.0.2/16'',
      reconciliation_flag = True, reconciliation_failures = 9999999\<rparr>"

definition example_storage :: storage where
  "example_storage =
     \<lparr>devices = [(''d1'', ''t1'') \<mapsto> example_device],
      tokens = [''secret'' \<mapsto> ''t1'', ''secret2'' \<mapsto> ''t2''],
      tenant_configs = [''t1'' \<mapsto> [''vxlan_port'' \<mapsto> Some 4789],
                        ''t2'' \<mapsto> [''vxlan_port'' \<mapsto> None]],
      stamp_nodes = Map.empty\<rparr>"

definition example_world :: world where
  "example_world =
     \<lparr>db = example_storage, connected_devices = Map.empty, next_event = 0, events_set = {},
      threads = [], trace = []\<rparr>"

definition example_vtep :: vtep where
  "example_vtep =
     \<lparr>controller_vtep_mac = Some ''02:00:00:00:00:01'', controller_vtep_ip = Some ''10.0.0.1'',
      device_vtep_ip = Some ''10.0.0.2'', vtep_mask = Some 16\<rparr>"

definition example_mode :: tunnel_mode_obj where
  "example_mode =
     \<lparr>require_keep_alive_messages = True,
      create_tunnel_controller_endpoint =
        (\<lambda>a. if arg_device_external_ip a = '''' then (STATUS_INTERNAL_ERROR, no_vtep)
             else (STATUS_SUCCESS, example_vtep)),
      destroy_tunnel_controller_endpoint = (\<lambda>d t. STATUS_SUCCESS)\<rparr>"

definition example_nb :: nb_interface where
  "example_nb =
     \<lparr>prepare_db_for_device_reconciliation = (\<lambda>d t. 200),
      device_reconciliation = (\<lambda>d t. 200),
      overlay_reconciliation = (\<lambda>d t. 200)\<rparr>"

definition example_controller :: controller where
  "example_controller =
     \<lparr>keep_alive_interval = 5, max_keep_alive_lost = 4,
      tunnel_modes = [''vxlan'' \<mapsto> example_mode],
      nb_interface_ref = Some example_nb\<rparr>"


definition example_failing_nb :: nb_interface where
  "example_failing_nb =
     \<lparr>prepare_db_for_device_reconciliation = (\<lambda>d t. 200),
      device_reconciliation = (\<lambda>d t. 500),
      overlay_reconciliation = (\<lambda>d t. 200)\<rparr>"

definition example_update :: "string \<Rightarrow> string \<Rightarrow> world \<Rightarrow> (py_error + status \<times> vtep) \<times> world" where
  "example_update tunnel_name device_external_ip =
     update_mgmt_info example_controller ''d1'' ''t1'' [] ''203.0.113.5'' tunnel_name ''Open''
       device_external_ip 51000 ''02:00:00:00:00:02'' 4789"

text \<open>
  A VXLAN mode object before its first tunnel, and its state after the endpoint of
  device \<open>a\<close> of tenant \<open>1\<close> has been created.
\<close>

definition example_vxlan :: TunnelVXLAN where
  "example_vxlan =
     \<lparr>name = ''vxlan'', controller_ip = ''2001:db8::1'',
      ipv4_address_allocator = \<lparr>prefixlen = 16, next_host = 1, released = []\<rparr>,
      ipv6_address_allocator = \<lparr>prefixlen = 64, next_host = 1, released = []\<rparr>,
      initiated = {}, device_to_mac_addr = Map.empty,
      device_to_mgmt_ipv4 = Map.empty, device_to_mgmt_ipv6 = Map.empty,
      ipv4_pools = Map.empty, ipv6_pools = Map.empty, net = []\<rparr>"

definition example_env :: os_env where
  "example_env =
     \<lparr>getAddressFamily = (\<lambda>ip. if ip = ''203.0.113.5'' \<or> ip = ''203.0.113.6'' then Some AF_INET else None),
      get_mac_address = (\<lambda>ifname. ''02:00:00:00:00:01'')\<rparr>"

definition example_tunnel_info :: "deviceid \<Rightarrow> tenantid \<Rightarrow> string \<Rightarrow> tunnel_info" where
  "example_tunnel_info device_id tenantid ip =
     \<lparr>ti_device_id = device_id, ti_tenantid = tenantid, ti_device_external_ip = ip,
      ti_device_external_port = 51000, ti_device_vtep_mac = ''02:00:00:00:00:02'',
      ti_vxlan_port = 4789, ti_controller_vtep_mac = None, ti_controller_vtep_ip = None,
      ti_device_vtep_ip = None, ti_vtep_mask = None\<rparr>"

definition example_vxlan_after_a :: TunnelVXLAN where
  "example_vxlan_after_a =
     snd (snd (vxlan_create_tunnel_controller_endpoint example_env
                 (example_tunnel_info ''a'' ''1'' ''203.0.113.5'') example_vxlan))"

section \<open>Theorems\<close>

lemmas example_defs = example_registration_def example_device_def example_storage_def
  example_world_def example_vtep_def example_mode_def example_nb_def example_controller_def

lemmas update_mgmt_info_defs = update_mgmt_info_def destroy_old_tunnel_def
  start_keep_alive_session_def log_call_def db_get_tunnel_mode_def db_set_tunnel_mode_def
  update_device_def db_get_device_mgmtip_def db_update_mgmt_info_def
  db_set_device_connected_flag_def get_stamp_node_def update_stamp_node_def
  db_change_device_state_def Let_def

subsection \<open>NAT types\<close>

lemma nat_type_UNIV:
  "(UNIV :: nat_type set) =
     {BLOCKED, OPEN, FULL_CONE, RESTRICTED_CONE, RESTRICTED_PORT, SYMMETRIC, UDP_FIREWALL}"
proof -
  have "x \<in> {BLOCKED, OPEN, FULL_CONE, RESTRICTED_CONE, RESTRICTED_PORT, SYMMETRIC, UDP_FIREWALL}"
    for x :: nat_type
    by (cases x) simp_all
  then show ?thesis by blast
qed

text \<open>
  C9. The NAT types supported by the VXLAN mode are exactly Open, Full Cone, Restricted
  Cone and Restricted Port, so Symmetric is not among them; the Ethernet-over-websocket
  mode supports every classification except Blocked; Open is supported by both modes.
\<close>

theorem supported_nat_types_exact:
  "set vxlan_supported_nat_types = {OPEN, FULL_CONE, RESTRICTED_CONE, RESTRICTED_PORT}
   \<and> SYMMETRIC \<notin> set vxlan_supported_nat_types
   \<and> set etherws_supported_nat_types = UNIV - {BLOCKED}
   \<and> OPEN \<in> set vxlan_supported_nat_types
   \<and> OPEN \<in> set etherws_supported_nat_types"
  unfolding vxlan_supported_nat_types_def etherws_supported_nat_types_def nat_type_UNIV
  by auto

subsection \<open>Registration\<close>

text \<open>
  C8. When the storage rejects the token, \<^verbatim>\<open>register_device\<close> returns UNAUTHORIZED and
  the world after the call is the world before it: no device record is created, no flag
  is set, no tenant configuration is changed.
\<close>

theorem register_device_unauthorized:
  "db_authenticate_device (token auth) (db w) = None \<Longrightarrow>
   register_device deviceid reg auth w = ((STATUS_UNAUTHORIZED, None, None), w)"
  by (simp add: register_device_def authenticate_device_def)

theorem register_device_unauthorized_witness:
  "db_authenticate_device (token \<lparr>token = ''wrong''\<rparr>) (db example_world) = None
   \<and> register_device ''d2'' example_registration \<lparr>token = ''wrong''\<rparr> example_world =
       ((STATUS_UNAUTHORIZED, None, None), example_world)"
  using register_device_unauthorized
          [of "\<lparr>token = ''wrong''\<rparr>" example_world "''d2''" example_registration]
  by (simp add: db_authenticate_device_def example_world_def example_storage_def)

text \<open>
  C7. When the storage accepts the token for tenant \<open>t\<close>, \<^verbatim>\<open>register_device\<close> returns
  SUCCESS with the VXLAN port of the configuration of \<open>t\<close>, that is the value that
  the configuration holds under \<^verbatim>\<open>vxlan_port\<close> (also when that value is \<^verbatim>\<open>None\<close>) and
  4789 when the configuration has no such key, or INTERNAL_ERROR when \<open>t\<close> has no
  configuration. A device that exists for \<open>t\<close> keeps its record, with the
  reconciliation flag set; otherwise the record is created by the storage. Nothing
  else of the world changes.
\<close>

theorem register_device_authenticated:
  assumes "db_authenticate_device (token auth) (db w) = Some t"
  shows "fst (register_device d reg auth w) =
           (case db_get_tenant_config t (db w) of
              None \<Rightarrow> (STATUS_INTERNAL_ERROR, None, None)
            | Some config \<Rightarrow>
                (STATUS_SUCCESS,
                 (case config ''vxlan_port'' of None \<Rightarrow> Some 4789 | Some port \<Rightarrow> port),
                 Some t))
         \<and> snd (register_device d reg auth w) =
           w\<lparr>db := (case db_get_device d t (db w) of
                      Some dev \<Rightarrow>
                        (db w)\<lparr>devices := (devices (db w))((d, t) \<mapsto>
                                  dev\<lparr>reconciliation_flag := True\<rparr>)\<rparr>
                    | None \<Rightarrow> db_register_device d reg t (db w))\<rparr>"
  using assms
  by (auto simp add: register_device_def authenticate_device_def db_device_exists_def
      db_set_device_reconciliation_flag_def update_device_def db_get_tenant_config_def
      db_register_device_def db_get_device_def DEFAULT_VXLAN_PORT_def dict_get_def Let_def
      split: option.splits)

theorem register_device_authenticated_witness:
  "db_authenticate_device (token \<lparr>token = ''secret''\<rparr>) (db example_world) = Some ''t1''
   \<and> fst (register_device ''d1'' example_registration \<lparr>token = ''secret''\<rparr> example_world) =
       (STATUS_SUCCESS, Some 4789, Some ''t1'')
   \<and> db_get_device ''d1'' ''t1''
        (db (snd (register_device ''d1'' example_registration \<lparr>token = ''secret''\<rparr>
                    example_world))) =
       Some (example_device\<lparr>reconciliation_flag := True\<rparr>)
   \<and> fst (register_device ''d2'' example_registration \<lparr>token = ''secret''\<rparr> example_world) =
       (STATUS_SUCCESS, Some 4789, Some ''t1'')
   \<and> map_option state (db_get_device ''d2'' ''t1''
        (db (snd (register_device ''d2'' example_registration \<lparr>token = ''secret''\<rparr>
                    example_world)))) = Some REGISTERED
   \<and> db_authenticate_device (token \<lparr>token = ''secret2''\<rparr>) (db example_world) = Some ''t2''
   \<and> fst (register_device ''d3'' example_registration \<lparr>token = ''secret2''\<rparr> example_world) =
       (STATUS_SUCCESS, None, Some ''t2'')"
  using register_device_authenticated
          [of "\<lparr>token = ''secret''\<rparr>" example_world "''t1''" "''d1''" example_registration]
        register_device_authenticated
          [of "\<lparr>token = ''secret''\<rparr>" example_world "''t1''" "''d2''" example_registration]
        register_device_authenticated
          [of "\<lparr>token = ''secret2''\<rparr>" example_world "''t2''" "''d3''" example_registration]
  by (simp add: db_authenticate_device_def db_get_tenant_config_def db_get_device_def
      db_register_device_def example_world_def example_storage_def)

subsection \<open>Reconciliation\<close>

lemma reconciliation_failed_registered:
  assumes "devices (db w) (d, t) = Some dev"
  shows "reconciliation_failed d t w =
     (Inr None,
      w\<lparr>db := (db w)\<lparr>devices := (devices (db w))((d, t) \<mapsto>
          dev\<lparr>state := (if MAX_ALLOWED_RECONCILIATION_FAILURES \<le> reconciliation_failures dev + 1
                         then FAILURE else REBOOT_REQUIRED),
              reconciliation_failures := reconciliation_failures dev + 1\<rparr>)\<rparr>\<rparr>)"
  using assms
  by (cases dev)
    (auto simp add: reconciliation_failed_def db_change_device_state_def update_device_def
      db_inc_and_get_reconciliation_failures_def Let_def)

lemma reconciliation_failed_repeated:
  assumes "devices (db w) (d, t) = Some dev"
  shows "\<exists>dev'. devices (db (((\<lambda>w. snd (reconciliation_failed d t w)) ^^ n) w)) (d, t) = Some dev'
     \<and> reconciliation_failures dev' = reconciliation_failures dev + int n
     \<and> (0 < n \<longrightarrow> state dev' =
          (if MAX_ALLOWED_RECONCILIATION_FAILURES \<le> reconciliation_failures dev + int n
           then FAILURE else REBOOT_REQUIRED))"
proof (induction n)
  case 0
  then show ?case using assms by simp
next
  case (Suc n)
  then obtain dev' where
    d': "devices (db (((\<lambda>w. snd (reconciliation_failed d t w)) ^^ n) w)) (d, t) = Some dev'"
    and f: "reconciliation_failures dev' = reconciliation_failures dev + int n"
    by blast
  show ?case
    using reconciliation_failed_registered[OF d'] f by (simp add: algebra_simps)
qed

lemma reconciliation_failed_writes:
  assumes "devices (db w) (d, t) = Some dev"
  shows "db (snd (reconciliation_failed d t w)) =
     (let s2 = snd (db_inc_and_get_reconciliation_failures d t
                      (snd (db_change_device_state d t REBOOT_REQUIRED (db w))))
      in if MAX_ALLOWED_RECONCILIATION_FAILURES \<le> reconciliation_failures dev + 1
         then snd (db_change_device_state d t FAILURE s2) else s2)"
  using assms
  by (cases dev)
    (auto simp add: reconciliation_failed_def db_change_device_state_def update_device_def
      db_inc_and_get_reconciliation_failures_def Let_def)

text \<open>
  C4. For a device that the storage holds, the handler \<^verbatim>\<open>reconciliation_failed\<close> writes
  the state REBOOT_REQUIRED, then increments the failure counter; when the incremented
  counter has reached \<^verbatim>\<open>MAX_ALLOWED_RECONCILIATION_FAILURES\<close> it then writes the state
  FAILURE. So the state after the call is FAILURE from the ceiling on and
  REBOOT_REQUIRED below it, and from the ceiling on it is FAILURE after every further
  call of the handler.
\<close>

theorem reconciliation_failed_escalates:
  assumes "db_get_device d t (db w) = Some dev"
  shows "fst (reconciliation_failed d t w) = Inr None
    \<and> db (snd (reconciliation_failed d t w)) =
        (let s2 = snd (db_inc_and_get_reconciliation_failures d t
                         (snd (db_change_device_state d t REBOOT_REQUIRED (db w))))
         in if MAX_ALLOWED_RECONCILIATION_FAILURES \<le> reconciliation_failures dev + 1
            then snd (db_change_device_state d t FAILURE s2) else s2)
    \<and> map_option reconciliation_failures
         (db_get_device d t (db (snd (reconciliation_failed d t w)))) =
        Some (reconciliation_failures dev + 1)
    \<and> map_option state (db_get_device d t (db (snd (reconciliation_failed d t w)))) =
        Some (if MAX_ALLOWED_RECONCILIATION_FAILURES \<le> reconciliation_failures dev + 1
              then FAILURE else REBOOT_REQUIRED)
    \<and> (MAX_ALLOWED_RECONCILIATION_FAILURES \<le> reconciliation_failures dev + 1 \<longrightarrow>
         map_option state
           (db_get_device d t (db (((\<lambda>w. snd (reconciliation_failed d t w)) ^^ Suc n) w))) =
         Some FAILURE)"
proof -
  from assms have dev: "devices (db w) (d, t) = Some dev"
    by (simp add: db_get_device_def)
  from reconciliation_failed_repeated[OF dev, of "Suc n"] obtain dev' where
    "devices (db (((\<lambda>w. snd (reconciliation_failed d t w)) ^^ Suc n) w)) (d, t) = Some dev'"
    "reconciliation_failures dev' = reconciliation_failures dev + int (Suc n)"
    "state dev' =
       (if MAX_ALLOWED_RECONCILIATION_FAILURES \<le> reconciliation_failures dev + int (Suc n)
        then FAILURE else REBOOT_REQUIRED)"
    by auto
  then have further:
    "MAX_ALLOWED_RECONCILIATION_FAILURES \<le> reconciliation_failures dev + 1 \<longrightarrow>
       map_option state
         (db_get_device d t (db (((\<lambda>w. snd (reconciliation_failed d t w)) ^^ Suc n) w))) =
       Some FAILURE"
    by (auto simp add: db_get_device_def)
  have result: "fst (reconciliation_failed d t w) = Inr None"
    and failures: "map_option reconciliation_failures
         (db_get_device d t (db (snd (reconciliation_failed d t w)))) =
        Some (reconciliation_failures dev + 1)"
    and after: "map_option state (db_get_device d t (db (snd (reconciliation_failed d t w)))) =
        Some (if MAX_ALLOWED_RECONCILIATION_FAILURES \<le> reconciliation_failures dev + 1
              then FAILURE else REBOOT_REQUIRED)"
    by (simp_all add: reconciliation_failed_registered[OF dev] db_get_device_def)
  from result reconciliation_failed_writes[OF dev] failures after further
  show ?thesis by (intro conjI)
qed

theorem reconciliation_failed_escalates_witness:
  "db_get_device ''d1'' ''t1'' (db example_world) = Some example_device
   \<and> reconciliation_failures example_device + 1 = MAX_ALLOWED_RECONCILIATION_FAILURES
   \<and> map_option state
       (db_get_device ''d1'' ''t1'' (db (snd (reconciliation_failed ''d1'' ''t1'' example_world)))) =
      Some FAILURE
   \<and> map_option state
       (db_get_device ''d1'' ''t1''
          (db (((\<lambda>w. snd (reconciliation_failed ''d1'' ''t1'' w)) ^^ Suc 2) example_world))) =
      Some FAILURE"
proof -
  have registered: "db_get_device ''d1'' ''t1'' (db example_world) = Some example_device"
    by (simp add: db_get_device_def example_world_def example_storage_def)
  have ceiling: "reconciliation_failures example_device + 1 = MAX_ALLOWED_RECONCILIATION_FAILURES"
    by (simp add: example_device_def MAX_ALLOWED_RECONCILIATION_FAILURES_def)
  note escalates = reconciliation_failed_escalates [OF registered, of 2]
  from escalates ceiling have after:
    "map_option state
       (db_get_device ''d1'' ''t1'' (db (snd (reconciliation_failed ''d1'' ''t1'' example_world)))) =
      Some FAILURE"
    by (elim conjE) simp
  from escalates ceiling have further:
    "map_option state
       (db_get_device ''d1'' ''t1''
          (db (((\<lambda>w. snd (reconciliation_failed ''d1'' ''t1'' w)) ^^ Suc 2) example_world))) =
      Some FAILURE"
    by (elim conjE) simp
  from registered ceiling after further show ?thesis by (intro conjI)
qed

lemma trace_reconciliation_failed:
  "trace (snd (reconciliation_failed d t w)) = trace w"
  by (auto simp add: reconciliation_failed_def Let_def split: prod.splits option.splits)

lemma db_reconciliation_failed_trace:
  "db (snd (reconciliation_failed d t (w\<lparr>trace := tr\<rparr>))) = db (snd (reconciliation_failed d t w))"
  by (auto simp add: reconciliation_failed_def Let_def split: prod.splits option.splits)

lemma exec_reconciliation_trace:
  assumes "nb_interface_ref self = Some nb"
  shows "trace (snd (exec_reconciliation self d t w)) = trace w @
     (if db_get_device_reconciliation_flag d t (db w) \<noteq> Some True then []
      else if prepare_db_for_device_reconciliation nb d t \<noteq> 200
        then [PrepareDb d t, ReconciliationFailed d t]
      else if device_reconciliation nb d t \<noteq> 200
        then [PrepareDb d t, DeviceReconciliation d t, ReconciliationFailed d t]
      else if overlay_reconciliation nb d t \<noteq> 200
        then [PrepareDb d t, DeviceReconciliation d t, OverlayReconciliation d t,
              ReconciliationFailed d t]
      else [PrepareDb d t, DeviceReconciliation d t, OverlayReconciliation d t])"
  using assms
  by (auto simp add: exec_reconciliation_def reconciliation_block_def reset_failures_counter_def
      log_call_def trace_reconciliation_failed Let_def split: prod.splits)

lemma exec_reconciliation_success:
  assumes "nb_interface_ref self = Some nb"
    and "db_get_device_reconciliation_flag d t (db w) = Some True"
    and "prepare_db_for_device_reconciliation nb d t = 200"
    and "device_reconciliation nb d t = 200"
    and "overlay_reconciliation nb d t = 200"
  shows "fst (exec_reconciliation self d t w) = Inr (Status STATUS_SUCCESS)"
    and "db_get_device_reconciliation_flag d t (db (snd (exec_reconciliation self d t w))) =
           Some False"
    and "map_option reconciliation_failures
           (db_get_device d t (db (snd (exec_reconciliation self d t w)))) = Some 0"
  using assms
  by (auto simp add: exec_reconciliation_def reconciliation_block_def reset_failures_counter_def
      log_call_def Let_def db_get_device_reconciliation_flag_def
      db_set_device_reconciliation_flag_def db_reset_reconciliation_failures_def
      update_device_def db_get_device_def split: prod.splits option.splits)

lemma exec_reconciliation_failure:
  assumes "nb_interface_ref self = Some nb"
    and "db_get_device_reconciliation_flag d t (db w) = Some True"
    and "\<not> (prepare_db_for_device_reconciliation nb d t = 200
           \<and> device_reconciliation nb d t = 200 \<and> overlay_reconciliation nb d t = 200)"
  shows "fst (exec_reconciliation self d t w) =
           Inr (StepCode (if prepare_db_for_device_reconciliation nb d t \<noteq> 200
                          then prepare_db_for_device_reconciliation nb d t
                          else if device_reconciliation nb d t \<noteq> 200
                          then device_reconciliation nb d t
                          else overlay_reconciliation nb d t))"
    and "db (snd (exec_reconciliation self d t w)) = db (snd (reconciliation_failed d t w))"
  using assms
  by (auto simp add: exec_reconciliation_def reconciliation_block_def Let_def
      db_reconciliation_failed_trace log_call_def split: prod.splits)

lemma exec_reconciliation_flag_unset:
  assumes "db_get_device_reconciliation_flag d t (db w) \<noteq> Some True"
  shows "exec_reconciliation self d t w =
           (Inr (Status (if db_device_exists d t (db w) then STATUS_SUCCESS
                         else STATUS_INTERNAL_ERROR)),
            w\<lparr>db := snd (db_reset_reconciliation_failures d t (db w))\<rparr>)"
  using assms
  by (auto simp add: exec_reconciliation_def reset_failures_counter_def Let_def
      db_reset_reconciliation_failures_def update_device_def db_device_exists_def
      split: prod.splits option.splits)

lemma exec_reconciliation_no_interface:
  assumes "nb_interface_ref self = None"
    and "db_get_device_reconciliation_flag d t (db w) = Some True"
  shows "exec_reconciliation self d t w =
           (Inl AttributeError,
            snd (reconciliation_failed d t (log_call (ReconciliationFailed d t) w)))"
  using assms
  by (simp add: exec_reconciliation_def reconciliation_block_def Let_def)

text \<open>
  C3, as amended. On a device whose reconciliation flag is set, and on a controller that
  has a northbound interface, \<^verbatim>\<open>exec_reconciliation\<close> calls the three steps in the order
  database preparation, device reconciliation, overlay reconciliation, a step only
  after the steps before it have returned 200. When a step returns another code, no
  further step is called, the handler \<^verbatim>\<open>reconciliation_failed\<close> is called once, and the
  code is returned. When the three steps return 200 the handler is not called, the flag
  is cleared, the failure counter is reset and SUCCESS is returned. On a controller
  without northbound interface, which is what its constructor builds by default, no
  step is called, the handler is called once and AttributeError is raised. With the
  flag unset no step and no handler is called, and the only change to the storage is
  the reset of the failure counter.
\<close>

theorem exec_reconciliation_steps:
  "(if db_get_device_reconciliation_flag d t (db w) \<noteq> Some True
    then exec_reconciliation self d t w =
           (Inr (Status (if db_device_exists d t (db w) then STATUS_SUCCESS
                         else STATUS_INTERNAL_ERROR)),
            w\<lparr>db := snd (db_reset_reconciliation_failures d t (db w))\<rparr>)
    else
     (case nb_interface_ref self of
        None \<Rightarrow>
          fst (exec_reconciliation self d t w) = Inl AttributeError
          \<and> trace (snd (exec_reconciliation self d t w)) = trace w @ [ReconciliationFailed d t]
          \<and> db (snd (exec_reconciliation self d t w)) = db (snd (reconciliation_failed d t w))
      | Some nb \<Rightarrow>
          trace (snd (exec_reconciliation self d t w)) = trace w @
            (if prepare_db_for_device_reconciliation nb d t \<noteq> 200
               then [PrepareDb d t, ReconciliationFailed d t]
             else if device_reconciliation nb d t \<noteq> 200
               then [PrepareDb d t, DeviceReconciliation d t, ReconciliationFailed d t]
             else if overlay_reconciliation nb d t \<noteq> 200
               then [PrepareDb d t, DeviceReconciliation d t, OverlayReconciliation d t,
                     ReconciliationFailed d t]
             else [PrepareDb d t, DeviceReconciliation d t, OverlayReconciliation d t])
          \<and> (if prepare_db_for_device_reconciliation nb d t = 200
                 \<and> device_reconciliation nb d t = 200 \<and> overlay_reconciliation nb d t = 200
              then fst (exec_reconciliation self d t w) = Inr (Status STATUS_SUCCESS)
                 \<and> db_get_device_reconciliation_flag d t
                      (db (snd (exec_reconciliation self d t w))) = Some False
                 \<and> map_option reconciliation_failures
                      (db_get_device d t (db (snd (exec_reconciliation self d t w)))) = Some 0
              else fst (exec_reconciliation self d t w) =
                     Inr (StepCode (if prepare_db_for_device_reconciliation nb d t \<noteq> 200
                                    then prepare_db_for_device_reconciliation nb d t
                                    else if device_reconciliation nb d t \<noteq> 200
                                    then device_reconciliation nb d t
                                    else overlay_reconciliation nb d t))
                 \<and> db (snd (exec_reconciliation self d t w)) =
                     db (snd (reconciliation_failed d t w)))))"
proof (cases "db_get_device_reconciliation_flag d t (db w) = Some True")
  case False
  with exec_reconciliation_flag_unset[OF False, of self] show ?thesis by simp
next
  case flag: True
  show ?thesis
  proof (cases "nb_interface_ref self")
    case None
    from exec_reconciliation_no_interface[OF None flag] flag None show ?thesis
      by (simp add: trace_reconciliation_failed log_call_def db_reconciliation_failed_trace)
  next
    case (Some nb)
    note tr = exec_reconciliation_trace[OF Some, of d t w]
    show ?thesis
    proof (cases "prepare_db_for_device_reconciliation nb d t = 200
            \<and> device_reconciliation nb d t = 200 \<and> overlay_reconciliation nb d t = 200")
      case True
      then have ok: "prepare_db_for_device_reconciliation nb d t = 200"
        "device_reconciliation nb d t = 200" "overlay_reconciliation nb d t = 200"
        by simp_all
      from exec_reconciliation_success[OF Some flag ok] tr flag ok Some show ?thesis by simp
    next
      case False
      from exec_reconciliation_failure[OF Some flag False] tr flag False Some show ?thesis
        by simp
    qed
  qed
qed

text \<open>
  The claim as stated fails on the controller without northbound interface: the flag of
  the device \<open>d1\<close> is set, no step is called and none fails, yet the handler is
  called, moves the device to FAILURE, and the call ends with AttributeError.
\<close>

theorem exec_reconciliation_without_interface:
  "db_get_device_reconciliation_flag ''d1'' ''t1'' (db example_world) = Some True
   \<and> fst (exec_reconciliation (example_controller\<lparr>nb_interface_ref := None\<rparr>)
            ''d1'' ''t1'' example_world) = Inl AttributeError
   \<and> trace (snd (exec_reconciliation (example_controller\<lparr>nb_interface_ref := None\<rparr>)
                   ''d1'' ''t1'' example_world)) = [ReconciliationFailed ''d1'' ''t1'']
   \<and> map_option state
       (db_get_device ''d1'' ''t1''
          (db (snd (exec_reconciliation (example_controller\<lparr>nb_interface_ref := None\<rparr>)
                      ''d1'' ''t1'' example_world)))) = Some FAILURE"
  by (simp add: exec_reconciliation_def reconciliation_block_def reconciliation_failed_def
      log_call_def db_get_device_reconciliation_flag_def db_change_device_state_def
      db_inc_and_get_reconciliation_failures_def update_device_def db_get_device_def
      MAX_ALLOWED_RECONCILIATION_FAILURES_def example_defs Let_def)

theorem exec_reconciliation_steps_witness:
  "trace (snd (exec_reconciliation example_controller ''d1'' ''t1'' example_world)) =
       [PrepareDb ''d1'' ''t1'', DeviceReconciliation ''d1'' ''t1'',
        OverlayReconciliation ''d1'' ''t1'']
   \<and> fst (exec_reconciliation example_controller ''d1'' ''t1'' example_world) =
       Inr (Status STATUS_SUCCESS)
   \<and> trace (snd (exec_reconciliation
                   (example_controller\<lparr>nb_interface_ref := Some example_failing_nb\<rparr>)
                   ''d1'' ''t1'' example_world)) =
       [PrepareDb ''d1'' ''t1'', DeviceReconciliation ''d1'' ''t1'',
        ReconciliationFailed ''d1'' ''t1'']
   \<and> fst (exec_reconciliation
            (example_controller\<lparr>nb_interface_ref := Some example_failing_nb\<rparr>)
            ''d1'' ''t1'' example_world) = Inr (StepCode 500)"
  using exec_reconciliation_steps
          [of "''d1''" "''t1''" example_world example_controller]
        exec_reconciliation_steps
          [of "''d1''" "''t1''" example_world
              "example_controller\<lparr>nb_interface_ref := Some example_failing_nb\<rparr>"]
  by (simp add: example_defs example_failing_nb_def db_get_device_reconciliation_flag_def)

subsection \<open>Tunnel establishment\<close>

lemma destroy_old_tunnel_keeps:
  assumes "destroy_old_tunnel self d t w = Inr w1"
  shows "connected_devices w1 = connected_devices w" "events_set w1 = events_set w"
     "next_event w1 = next_event w" "threads w1 = threads w"
     "db_get_device_mgmtip t d (db w1) = db_get_device_mgmtip t d (db w)"
  using assms
  by (auto simp add: destroy_old_tunnel_def log_call_def Let_def db_get_device_mgmtip_def
      db_set_tunnel_mode_def update_device_def db_get_tunnel_mode_def
      split: option.splits if_splits)

lemma destroy_old_tunnel_not_success:
  "destroy_old_tunnel self d t w \<noteq> Inl (Inr (STATUS_SUCCESS, v), w')"
  by (auto simp add: destroy_old_tunnel_def Let_def split: option.splits)

lemma update_mgmt_info_success:
  assumes "update_mgmt_info self d t ifs ip tunnel_name nt eip eport mac port w =
             (Inr (STATUS_SUCCESS, v), w')"
  shows "\<exists>w1 tm s. destroy_old_tunnel self d t w = Inr w1 \<and> tunnel_modes self tunnel_name = Some tm
     \<and> w' = (start_keep_alive_session self tm d t
               (case db_get_device_mgmtip t d (db w) of
                  None \<Rightarrow> ip | Some a \<Rightarrow> takeWhile (\<lambda>c. c \<noteq> CHR ''/'') a)
               (log_call (CreateEndpoint tunnel_name
                            \<lparr>arg_deviceid = d, arg_tenantid = t, arg_device_external_ip = eip,
                             arg_device_external_port = eport, arg_vxlan_port = port,
                             arg_device_vtep_mac = mac\<rparr>) w1))\<lparr>db := s\<rparr>"
proof -
  from assms destroy_old_tunnel_not_success
  obtain w1 where w1: "destroy_old_tunnel self d t w = Inr w1"
    by (cases "destroy_old_tunnel self d t w") (auto simp add: update_mgmt_info_def)
  from assms w1 obtain tm where tm: "tunnel_modes self tunnel_name = Some tm"
    by (auto simp add: update_mgmt_info_def split: option.splits)
  have ip: "db_get_device_mgmtip t d (db (log_call c w1)) = db_get_device_mgmtip t d (db w)" for c
    using destroy_old_tunnel_keeps(5)[OF w1] by (simp add: log_call_def)
  from assms w1 tm show ?thesis
    by (auto simp add: update_mgmt_info_def Let_def ip split: prod.splits if_splits option.splits)
qed

lemma db_start_keep_alive_session:
  "db (start_keep_alive_session self tm d t ip w) = db w"
  by (simp add: start_keep_alive_session_def Let_def split: option.splits)

lemma update_mgmt_info_after_teardown:
  assumes "destroy_old_tunnel self d t w = Inr w1"
    and "tunnel_modes self tunnel_name = Some tm"
  shows
    "(let args = \<lparr>arg_deviceid = d, arg_tenantid = t, arg_device_external_ip = eip,
                 arg_device_external_port = eport, arg_vxlan_port = port,
                 arg_device_vtep_mac = mac\<rparr>;
         w2 = log_call (CreateEndpoint tunnel_name args) w1;
         r = update_mgmt_info self d t ifs ip tunnel_name nt eip eport mac port w
     in if fst (create_tunnel_controller_endpoint tm args) \<noteq> STATUS_SUCCESS
        then r = (Inr (fst (create_tunnel_controller_endpoint tm args), no_vtep), w2)
        else
         (case devices (db w1) (d, t) of
            None \<Rightarrow>
              r = (Inr (STATUS_INTERNAL_ERROR, no_vtep),
                   start_keep_alive_session self tm d t ip w2)
          | Some dev \<Rightarrow>
              fst r =
                (case nb_interface_ref self of
                   None \<Rightarrow> Inl AttributeError
                 | Some nb \<Rightarrow>
                     Inr (STATUS_SUCCESS, snd (create_tunnel_controller_endpoint tm args)))))"
proof (cases "devices (db w1) (d, t)")
  case None
  with assms show ?thesis
    by (simp add: update_mgmt_info_def Let_def log_call_def db_start_keep_alive_session
        db_get_device_mgmtip_def db_update_mgmt_info_def update_device_def
        split: prod.splits)
next
  case (Some dev)
  with assms show ?thesis
    by (cases "nb_interface_ref self")
      (simp_all add: update_mgmt_info_def Let_def log_call_def db_start_keep_alive_session
        db_update_mgmt_info_def db_set_device_connected_flag_def db_change_device_state_def
        get_stamp_node_def update_stamp_node_def update_device_def
        split: prod.splits option.splits)
qed

text \<open>
  C1, as amended. A step of \<^verbatim>\<open>update_mgmt_info\<close> that fails with a status makes the
  operation return that status at once, with no VTEP field: the status of the tunnel
  mode itself when the teardown of the old endpoint or the creation of the new one
  fails, INTERNAL_ERROR when the update of the storage fails, which it does for a
  device that the storage does not hold. There is no rollback. The storage and the
  session table are those of before the call when the teardown fails, and when the
  creation fails for a device without tunnel mode. When the creation fails after the
  teardown, the tunnel mode of the device has been cleared in the storage. When the
  update of the storage fails, the keep-alive session has been replaced already: the
  former stop event set, a new one stored in the session table, and the thread started
  if the mode requires keep-alive messages. In every other case the call succeeds or
  raises an exception.
\<close>

theorem update_mgmt_info_failure:
  "(let args = \<lparr>arg_deviceid = d, arg_tenantid = t, arg_device_external_ip = eip,
                 arg_device_external_port = eport, arg_vxlan_port = port,
                 arg_device_vtep_mac = mac\<rparr>;
        r = update_mgmt_info self d t ifs ip tunnel_name nt eip eport mac port w
    in case db_get_tunnel_mode d t (db w) of
         None \<Rightarrow>
           (case tunnel_modes self tunnel_name of
              None \<Rightarrow> r = (Inl KeyError, w)
            | Some tm \<Rightarrow>
                if fst (create_tunnel_controller_endpoint tm args) \<noteq> STATUS_SUCCESS
                then r = (Inr (fst (create_tunnel_controller_endpoint tm args), no_vtep),
                          w\<lparr>trace := trace w @ [CreateEndpoint tunnel_name args]\<rparr>)
                else if \<not> db_device_exists d t (db w)
                then r = (Inr (STATUS_INTERNAL_ERROR, no_vtep),
                          start_keep_alive_session self tm d t ip
                            (w\<lparr>trace := trace w @ [CreateEndpoint tunnel_name args]\<rparr>))
                else fst r =
                       (case nb_interface_ref self of
                          None \<Rightarrow> Inl AttributeError
                        | Some nb \<Rightarrow>
                            Inr (STATUS_SUCCESS,
                                 snd (create_tunnel_controller_endpoint tm args))))
       | Some old \<Rightarrow>
           (case tunnel_modes self old of
              None \<Rightarrow> r = (Inl KeyError, w)
            | Some old_tm \<Rightarrow>
                if destroy_tunnel_controller_endpoint old_tm d t \<noteq> STATUS_SUCCESS
                then r = (Inr (destroy_tunnel_controller_endpoint old_tm d t, no_vtep),
                          w\<lparr>trace := trace w @ [DestroyEndpoint old d t]\<rparr>)
                else
                 (case tunnel_modes self tunnel_name of
                    None \<Rightarrow>
                      r = (Inl KeyError,
                           w\<lparr>db := snd (db_set_tunnel_mode d t None (db w)),
                             trace := trace w @ [DestroyEndpoint old d t]\<rparr>)
                  | Some tm \<Rightarrow>
                      if fst (create_tunnel_controller_endpoint tm args) \<noteq> STATUS_SUCCESS
                      then r = (Inr (fst (create_tunnel_controller_endpoint tm args), no_vtep),
                                w\<lparr>db := snd (db_set_tunnel_mode d t None (db w)),
                                  trace := trace w @ [DestroyEndpoint old d t,
                                                      CreateEndpoint tunnel_name args]\<rparr>)
                      else fst r =
                             (case nb_interface_ref self of
                                None \<Rightarrow> Inl AttributeError
                              | Some nb \<Rightarrow>
                                  Inr (STATUS_SUCCESS,
                                       snd (create_tunnel_controller_endpoint tm args))))))"
proof (cases "db_get_tunnel_mode d t (db w)")
  case None
  then have teardown: "destroy_old_tunnel self d t w = Inr w"
    by (simp add: destroy_old_tunnel_def)
  show ?thesis
  proof (cases "tunnel_modes self tunnel_name")
    case no_mode: None
    with None teardown show ?thesis
      by (simp add: update_mgmt_info_def)
  next
    case (Some tm)
    from update_mgmt_info_after_teardown
           [OF teardown Some, where eip=eip and eport=eport and port=port and mac=mac
              and ifs=ifs and ip=ip and nt=nt]
      None Some
    show ?thesis
      by (auto simp add: Let_def log_call_def db_device_exists_def split: option.splits)
  qed
next
  case (Some old)
  then obtain dev where dev: "devices (db w) (d, t) = Some dev"
    by (auto simp add: db_get_tunnel_mode_def split: option.splits)
  show ?thesis
  proof (cases "tunnel_modes self old")
    case None
    with Some show ?thesis
      by (simp add: update_mgmt_info_def destroy_old_tunnel_def)
  next
    case old_tm: (Some old_tm)
    show ?thesis
    proof (cases "destroy_tunnel_controller_endpoint old_tm d t = STATUS_SUCCESS")
      case False
      with Some old_tm show ?thesis
        by (simp add: update_mgmt_info_def destroy_old_tunnel_def log_call_def Let_def)
    next
      case True
      let ?w1 = "w\<lparr>db := snd (db_set_tunnel_mode d t None (db w)),
                   trace := trace w @ [DestroyEndpoint old d t]\<rparr>"
      from Some old_tm True have teardown: "destroy_old_tunnel self d t w = Inr ?w1"
        by (simp add: destroy_old_tunnel_def log_call_def Let_def)
      have held: "devices (db ?w1) (d, t) = Some (dev\<lparr>tunnel_mode := None\<rparr>)"
        using dev by (simp add: db_set_tunnel_mode_def update_device_def)
      show ?thesis
      proof (cases "tunnel_modes self tunnel_name")
        case None
        with Some old_tm True teardown show ?thesis
          by (simp add: update_mgmt_info_def)
      next
        case tm: (Some tm)
        from update_mgmt_info_after_teardown
               [OF teardown tm, where eip=eip and eport=eport and port=port and mac=mac
                  and ifs=ifs and ip=ip and nt=nt]
          Some old_tm True tm held
        show ?thesis
          by (auto simp add: Let_def log_call_def)
      qed
    qed
  qed
qed

text \<open>
  The claim as stated fails: the device \<open>d1\<close> holds the tunnel mode \<open>vxlan\<close>; an
  update whose endpoint creation fails returns INTERNAL_ERROR, and the storage no
  longer holds a tunnel mode for the device.
\<close>

theorem update_mgmt_info_failure_changes_state:
  "fst (example_update ''vxlan'' '''' example_world) = Inr (STATUS_INTERNAL_ERROR, no_vtep)
   \<and> db_get_tunnel_mode ''d1'' ''t1'' (db example_world) = Some ''vxlan''
   \<and> db_get_tunnel_mode ''d1'' ''t1'' (db (snd (example_update ''vxlan'' '''' example_world))) =
       None"
  by (simp add: example_update_def update_mgmt_info_defs example_defs)

theorem update_mgmt_info_failure_witness:
  "example_update ''vxlan'' '''' example_world =
     (Inr (STATUS_INTERNAL_ERROR, no_vtep),
      example_world
        \<lparr>db := snd (db_set_tunnel_mode ''d1'' ''t1'' None (db example_world)),
         trace := [DestroyEndpoint ''vxlan'' ''d1'' ''t1'',
                   CreateEndpoint ''vxlan''
                     \<lparr>arg_deviceid = ''d1'', arg_tenantid = ''t1'',
                      arg_device_external_ip = '''', arg_device_external_port = 51000,
                      arg_vxlan_port = 4789, arg_device_vtep_mac = ''02:00:00:00:00:02''\<rparr>]\<rparr>)
   \<and> fst (update_mgmt_info example_controller ''d2'' ''t1'' [] ''203.0.113.5'' ''vxlan''
            ''Open'' ''198.51.100.7'' 51000 ''02:00:00:00:00:02'' 4789 example_world) =
       Inr (STATUS_INTERNAL_ERROR, no_vtep)
   \<and> connected_devices
        (snd (update_mgmt_info example_controller ''d2'' ''t1'' [] ''203.0.113.5'' ''vxlan''
                ''Open'' ''198.51.100.7'' 51000 ''02:00:00:00:00:02'' 4789 example_world)) =
       [''t1/d2'' \<mapsto> 0]
   \<and> map ka_deviceid
        (threads
          (snd (update_mgmt_info example_controller ''d2'' ''t1'' [] ''203.0.113.5'' ''vxlan''
                  ''Open'' ''198.51.100.7'' 51000 ''02:00:00:00:00:02'' 4789 example_world))) =
       [''d2'']"
proof -
  have old: "db_get_tunnel_mode ''d1'' ''t1'' (db example_world) = Some ''vxlan''"
    by (simp add: db_get_tunnel_mode_def example_defs)
  have none: "db_get_tunnel_mode ''d2'' ''t1'' (db example_world) = None"
    by (simp add: db_get_tunnel_mode_def example_defs)
  have missing: "\<not> db_device_exists ''d2'' ''t1'' (db example_world)"
    by (simp add: db_device_exists_def example_defs)
  have registry: "tunnel_modes example_controller ''vxlan'' = Some example_mode"
    by (simp add: example_controller_def)
  have destroyed: "destroy_tunnel_controller_endpoint example_mode ''d1'' ''t1'' = STATUS_SUCCESS"
    by (simp add: example_mode_def)
  have created: "create_tunnel_controller_endpoint example_mode a =
      (if arg_device_external_ip a = '''' then (STATUS_INTERNAL_ERROR, no_vtep)
       else (STATUS_SUCCESS, example_vtep))" for a
    by (simp add: example_mode_def)
  have keep_alive: "require_keep_alive_messages example_mode"
    by (simp add: example_mode_def)
  have empty: "trace example_world = []" "threads example_world = []"
    "connected_devices example_world = Map.empty" "next_event example_world = 0"
    by (simp_all add: example_world_def)
  from update_mgmt_info_failure
         [where d="''d1''" and t="''t1''" and eip="''''" and eport=51000 and port=4789
            and mac="''02:00:00:00:00:02''" and self=example_controller and ifs="[]"
            and ip="''203.0.113.5''" and tunnel_name="''vxlan''" and nt="''Open''"
            and w=example_world]
  have first: "example_update ''vxlan'' '''' example_world =
     (Inr (STATUS_INTERNAL_ERROR, no_vtep),
      example_world
        \<lparr>db := snd (db_set_tunnel_mode ''d1'' ''t1'' None (db example_world)),
         trace := [DestroyEndpoint ''vxlan'' ''d1'' ''t1'',
                   CreateEndpoint ''vxlan''
                     \<lparr>arg_deviceid = ''d1'', arg_tenantid = ''t1'',
                      arg_device_external_ip = '''', arg_device_external_port = 51000,
                      arg_vxlan_port = 4789, arg_device_vtep_mac = ''02:00:00:00:00:02''\<rparr>]\<rparr>)"
    by (simp add: example_update_def old registry destroyed created empty)
  from update_mgmt_info_failure
         [where d="''d2''" and t="''t1''" and eip="''198.51.100.7''" and eport=51000
            and port=4789 and mac="''02:00:00:00:00:02''" and self=example_controller
            and ifs="[]" and ip="''203.0.113.5''" and tunnel_name="''vxlan''"
            and nt="''Open''" and w=example_world]
  have second: "update_mgmt_info example_controller ''d2'' ''t1'' [] ''203.0.113.5'' ''vxlan''
            ''Open'' ''198.51.100.7'' 51000 ''02:00:00:00:00:02'' 4789 example_world =
      (Inr (STATUS_INTERNAL_ERROR, no_vtep),
       start_keep_alive_session example_controller example_mode ''d2'' ''t1'' ''203.0.113.5''
         (example_world\<lparr>trace := trace example_world @
            [CreateEndpoint ''vxlan''
               \<lparr>arg_deviceid = ''d2'', arg_tenantid = ''t1'',
                arg_device_external_ip = ''198.51.100.7'', arg_device_external_port = 51000,
                arg_vxlan_port = 4789, arg_device_vtep_mac = ''02:00:00:00:00:02''\<rparr>]\<rparr>))"
    by (simp add: none missing registry created)
  show ?thesis
    unfolding first second
    by (simp add: start_keep_alive_session_def keep_alive empty)
qed

text \<open>
  C6, as amended. For a tunnel mode name that is not in the registry,
  \<^verbatim>\<open>update_mgmt_info\<close> creates no tunnel and does not succeed: after the endpoint of the
  tunnel mode that the device holds, if any, has been destroyed, the lookup of the name
  raises KeyError and no status is returned. Only a failed teardown returns a status,
  its own.
\<close>

theorem update_mgmt_info_unknown_mode:
  assumes "tunnel_modes self tunnel_name = None"
  shows "fst (update_mgmt_info self d t ifs ip tunnel_name nt eip eport mac port w) =
           (case db_get_tunnel_mode d t (db w) of
              None \<Rightarrow> Inl KeyError
            | Some old \<Rightarrow>
               (case tunnel_modes self old of
                  None \<Rightarrow> Inl KeyError
                | Some old_tm \<Rightarrow>
                    if destroy_tunnel_controller_endpoint old_tm d t \<noteq> STATUS_SUCCESS
                    then Inr (destroy_tunnel_controller_endpoint old_tm d t, no_vtep)
                    else Inl KeyError))
     \<and> trace (snd (update_mgmt_info self d t ifs ip tunnel_name nt eip eport mac port w)) =
         trace w @
           (case db_get_tunnel_mode d t (db w) of
              None \<Rightarrow> []
            | Some old \<Rightarrow>
               (case tunnel_modes self old of
                  None \<Rightarrow> []
                | Some old_tm \<Rightarrow> [DestroyEndpoint old d t]))"
  using assms
  by (simp add: update_mgmt_info_def destroy_old_tunnel_def log_call_def Let_def
      split: option.splits)

text \<open>
  The claim as stated fails: the name \<open>gre\<close> is not in the registry, and the call
  ends with KeyError, not with a status.
\<close>

theorem update_mgmt_info_unknown_mode_raises:
  "tunnel_modes example_controller ''gre'' = None
   \<and> fst (example_update ''gre'' ''198.51.100.7'' example_world) = Inl KeyError"
  by (simp add: example_update_def update_mgmt_info_defs example_defs)

theorem update_mgmt_info_unknown_mode_witness:
  "tunnel_modes example_controller ''gre'' = None
   \<and> trace (snd (example_update ''gre'' ''198.51.100.7'' example_world)) =
       [DestroyEndpoint ''vxlan'' ''d1'' ''t1'']"
proof -
  have unknown: "tunnel_modes example_controller ''gre'' = None"
    by (simp add: example_controller_def)
  have registry: "tunnel_modes example_controller ''vxlan'' = Some example_mode"
    by (simp add: example_controller_def)
  have old: "db_get_tunnel_mode ''d1'' ''t1'' (db example_world) = Some ''vxlan''"
    by (simp add: db_get_tunnel_mode_def example_defs)
  have empty: "trace example_world = []"
    by (simp add: example_world_def)
  from update_mgmt_info_unknown_mode
         [OF unknown, of "''d1''" "''t1''" "[]" "''203.0.113.5''" "''Open''" "''198.51.100.7''"
            51000 "''02:00:00:00:00:02''" 4789 example_world]
  have "trace (snd (example_update ''gre'' ''198.51.100.7'' example_world)) =
          [DestroyEndpoint ''vxlan'' ''d1'' ''t1'']"
    by (simp add: example_update_def old registry empty)
  with unknown show ?thesis by simp
qed

text \<open>
  C5, as amended. A successful \<^verbatim>\<open>update_mgmt_info\<close> sets the stop event that the session
  table holds for the device, if any, and then stores a new stop event under the thread
  id of the device, so that the table holds one event for each thread id. It starts a
  keep-alive thread with the new event when the tunnel mode requires keep-alive
  messages. The threads started before are all still there: the termination of the
  thread of the former event is not awaited.
\<close>

theorem update_mgmt_info_replaces_session:
  assumes "update_mgmt_info self d t ifs ip tunnel_name nt eip eport mac port w =
             (Inr (STATUS_SUCCESS, v), w')"
  shows "\<exists>tm. tunnel_modes self tunnel_name = Some tm
     \<and> events_set w' = (case connected_devices w (t @ ''/'' @ d) of
                         None \<Rightarrow> events_set w | Some ev \<Rightarrow> insert ev (events_set w))
     \<and> connected_devices w' = (connected_devices w)(t @ ''/'' @ d \<mapsto> next_event w)
     \<and> next_event w' = Suc (next_event w)
     \<and> threads w' = threads w @
          (if require_keep_alive_messages tm
           then [\<lparr>ka_mgmtip = (case db_get_device_mgmtip t d (db w) of
                                None \<Rightarrow> ip | Some a \<Rightarrow> takeWhile (\<lambda>c. c \<noteq> CHR ''/'') a),
                   ka_interval = keep_alive_interval self,
                   ka_max_lost = max_keep_alive_lost self, ka_stop_event = next_event w,
                   ka_deviceid = d, ka_tenantid = t\<rparr>]
           else [])"
proof -
  from update_mgmt_info_success[OF assms] obtain w1 tm s where
    w1: "destroy_old_tunnel self d t w = Inr w1" and tm: "tunnel_modes self tunnel_name = Some tm"
    and w': "w' = (start_keep_alive_session self tm d t
               (case db_get_device_mgmtip t d (db w) of
                  None \<Rightarrow> ip | Some a \<Rightarrow> takeWhile (\<lambda>c. c \<noteq> CHR ''/'') a)
               (log_call (CreateEndpoint tunnel_name
                            \<lparr>arg_deviceid = d, arg_tenantid = t, arg_device_external_ip = eip,
                             arg_device_external_port = eport, arg_vxlan_port = port,
                             arg_device_vtep_mac = mac\<rparr>) w1))\<lparr>db := s\<rparr>"
    by blast
  show ?thesis
    unfolding w' using tm destroy_old_tunnel_keeps(1-4)[OF w1]
    by (simp add: start_keep_alive_session_def log_call_def Let_def split: option.splits)
qed

text \<open>
  The claim as stated fails: after two successful updates for the device \<open>d1\<close> both
  keep-alive threads have been started for it and none has been awaited; the event of
  the first has only been set.
\<close>

theorem update_mgmt_info_does_not_await:
  "fst (example_update ''vxlan'' ''198.51.100.7'' example_world) =
     Inr (STATUS_SUCCESS, example_vtep)
   \<and> fst (example_update ''vxlan'' ''198.51.100.7''
           (snd (example_update ''vxlan'' ''198.51.100.7'' example_world))) =
     Inr (STATUS_SUCCESS, example_vtep)
   \<and> map ka_deviceid
       (threads (snd (example_update ''vxlan'' ''198.51.100.7''
                        (snd (example_update ''vxlan'' ''198.51.100.7'' example_world))))) =
     [''d1'', ''d1'']
   \<and> map ka_tenantid
       (threads (snd (example_update ''vxlan'' ''198.51.100.7''
                        (snd (example_update ''vxlan'' ''198.51.100.7'' example_world))))) =
     [''t1'', ''t1'']
   \<and> map ka_stop_event
       (threads (snd (example_update ''vxlan'' ''198.51.100.7''
                        (snd (example_update ''vxlan'' ''198.51.100.7'' example_world))))) =
     [0, 1]
   \<and> events_set (snd (example_update ''vxlan'' ''198.51.100.7''
                        (snd (example_update ''vxlan'' ''198.51.100.7'' example_world)))) =
     {0}"
  by (simp add: example_update_def update_mgmt_info_defs example_defs)

theorem update_mgmt_info_replaces_session_witness:
  "example_update ''vxlan'' ''198.51.100.7'' example_world =
     (Inr (STATUS_SUCCESS, example_vtep),
      snd (example_update ''vxlan'' ''198.51.100.7'' example_world))
   \<and> connected_devices (snd (example_update ''vxlan'' ''198.51.100.7'' example_world)) =
       [''t1/d1'' \<mapsto> 0]
   \<and> map ka_stop_event (threads (snd (example_update ''vxlan'' ''198.51.100.7'' example_world))) =
       [0]"
proof -
  have succeeded: "example_update ''vxlan'' ''198.51.100.7'' example_world =
     (Inr (STATUS_SUCCESS, example_vtep),
      snd (example_update ''vxlan'' ''198.51.100.7'' example_world))"
    by (simp add: example_update_def update_mgmt_info_defs example_defs)
  have registry: "tunnel_modes example_controller ''vxlan'' = Some example_mode"
    by (simp add: example_controller_def)
  have keep_alive: "require_keep_alive_messages example_mode"
    by (simp add: example_mode_def)
  from update_mgmt_info_replaces_session [OF succeeded [unfolded example_update_def]]
  have "connected_devices (snd (example_update ''vxlan'' ''198.51.100.7'' example_world)) =
          [''t1/d1'' \<mapsto> 0]
        \<and> map ka_stop_event
            (threads (snd (example_update ''vxlan'' ''198.51.100.7'' example_world))) = [0]"
    by (auto simp add: example_update_def registry keep_alive example_world_def)
  with succeeded show ?thesis by simp
qed

subsection \<open>Disconnection\<close>




subsection \<open>The tenant id in the VXLAN mode\<close>

lemma tenant_state_log_net: "tenant_state (log_net c s) k = tenant_state s k"
  by (simp add: tenant_state_def log_net_def)

lemma tenant_state_init_tenantid:
  "k \<noteq> t \<Longrightarrow> tenant_state (init_tenantid t s) k = tenant_state s k"
  by (simp add: tenant_state_def init_tenantid_def)

lemma tenant_state_release_tenantid:
  "k \<noteq> t \<Longrightarrow> tenant_state (release_tenantid t s) k = tenant_state s k"
  by (simp add: tenant_state_def release_tenantid_def)

lemma tenant_state_get_new_mgmt_ipv4:
  "k \<noteq> t \<Longrightarrow> tenant_state (snd (get_new_mgmt_ipv4 sl t s)) k = tenant_state s k"
  by (simp add: tenant_state_def get_new_mgmt_ipv4_def Let_def split: option.splits prod.splits)

lemma tenant_state_get_new_mgmt_ipv6:
  "k \<noteq> t \<Longrightarrow> tenant_state (snd (get_new_mgmt_ipv6 sl t s)) k = tenant_state s k"
  by (simp add: tenant_state_def get_new_mgmt_ipv6_def Let_def split: option.splits prod.splits)

lemma tenant_state_release_ipv4_address:
  "k \<noteq> t \<Longrightarrow> tenant_state (release_ipv4_address d t s) k = tenant_state s k"
  by (simp add: tenant_state_def release_ipv4_address_def split: option.splits)

lemma tenant_state_release_ipv6_address:
  "k \<noteq> t \<Longrightarrow> tenant_state (release_ipv6_address d t s) k = tenant_state s k"
  by (simp add: tenant_state_def release_ipv6_address_def split: option.splits)

lemma tenant_state_initiated:
  "k \<noteq> t \<Longrightarrow> tenant_state (s\<lparr>initiated := insert t (initiated s)\<rparr>) k = tenant_state s k"
  "k \<noteq> t \<Longrightarrow> tenant_state (s\<lparr>initiated := initiated s - {t}\<rparr>) k = tenant_state s k"
  "tenant_state (s\<lparr>device_to_mac_addr := m\<rparr>) k = tenant_state s k"
  by (simp_all add: tenant_state_def)

lemmas tenant_state_kept = tenant_state_log_net tenant_state_init_tenantid
  tenant_state_release_tenantid tenant_state_get_new_mgmt_ipv4 tenant_state_get_new_mgmt_ipv6
  tenant_state_release_ipv4_address tenant_state_release_ipv6_address tenant_state_initiated

lemma tenant_state_create_first_tunnel:
  assumes "k \<noteq> t"
  shows "tenant_state (snd (create_first_tunnel t n s)) k = tenant_state s k"
proof -
  let ?s1 = "init_tenantid t (s\<lparr>initiated := insert t (initiated s)\<rparr>)"
  have s1: "tenant_state ?s1 k = tenant_state s k"
    using assms by (simp add: tenant_state_kept)
  have s2: "tenant_state (snd (get_new_mgmt_ipv6 Controller t ?s1)) k = tenant_state s k"
    using assms s1 by (simp add: tenant_state_kept)
  have s3: "tenant_state (snd (get_new_mgmt_ipv4 Controller t (snd (get_new_mgmt_ipv6 Controller t ?s1)))) k
        = tenant_state s k"
    using assms s2 by (simp add: tenant_state_kept)
  show ?thesis
    using s2 s3
    by (auto simp add: create_first_tunnel_def Let_def tenant_state_log_net split: prod.splits sum.splits)
qed

lemma tenant_state_vtep_addresses:
  assumes "k \<noteq> t"
  shows "tenant_state (snd (vtep_addresses f d t s)) k = tenant_state s k"
proof (cases f)
  case AF_INET
  have s1: "tenant_state (snd (get_new_mgmt_ipv4 Controller t s)) k = tenant_state s k"
    using assms by (simp add: tenant_state_kept)
  have s2: "tenant_state (snd (get_new_mgmt_ipv4 (Device d) t (snd (get_new_mgmt_ipv4 Controller t s)))) k
        = tenant_state s k"
    using assms s1 by (simp add: tenant_state_kept)
  show ?thesis using AF_INET s1 s2
    by (auto simp add: vtep_addresses_def split: prod.splits sum.splits)
next
  case AF_INET6
  have s1: "tenant_state (snd (get_new_mgmt_ipv6 Controller t s)) k = tenant_state s k"
    using assms by (simp add: tenant_state_kept)
  have s2: "tenant_state (snd (get_new_mgmt_ipv6 (Device d) t (snd (get_new_mgmt_ipv6 Controller t s)))) k
        = tenant_state s k"
    using assms s1 by (simp add: tenant_state_kept)
  show ?thesis using AF_INET6 s1 s2
    by (auto simp add: vtep_addresses_def split: prod.splits sum.splits)
qed

lemma tenant_state_create:
  assumes "k \<noteq> ''0''"
  shows "tenant_state (snd (snd (vxlan_create_tunnel_controller_endpoint env ti s))) k = tenant_state s k"
proof -
  obtain e1 s1 where a: "(if ''0'' \<notin> initiated s then create_first_tunnel ''0'' (name s @ ''-0'') s
                          else (None, s)) = (e1, s1)"
    by (cases "if ''0'' \<notin> initiated s then create_first_tunnel ''0'' (name s @ ''-0'') s else (None, s)")
  have s1: "tenant_state s1 k = tenant_state s k"
    using assms a tenant_state_create_first_tunnel[of k "''0''" "name s @ ''-0''" s]
    by (auto split: if_splits)
  show ?thesis
  proof (cases e1)
    case (Some e)
    with a s1 show ?thesis
      by (simp add: vxlan_create_tunnel_controller_endpoint_def Let_def)
  next
    case None
    let ?s2 = "s1\<lparr>device_to_mac_addr := (device_to_mac_addr s1)(ti_device_id ti \<mapsto> ti_device_vtep_mac ti)\<rparr>"
    have s2: "tenant_state ?s2 k = tenant_state s k"
      using s1 by (simp add: tenant_state_kept)
    show ?thesis
    proof (cases "getAddressFamily env (ti_device_external_ip ti)")
      case nofam: None
      with a None s2 show ?thesis
        by (simp add: vxlan_create_tunnel_controller_endpoint_def Let_def)
    next
      case (Some f)
      obtain r3 s3 where v: "vtep_addresses f (ti_device_id ti) ''0'' ?s2 = (r3, s3)"
        by (cases "vtep_addresses f (ti_device_id ti) ''0'' ?s2")
      have s3: "tenant_state s3 k = tenant_state s k"
        using tenant_state_vtep_addresses[OF assms, of f "ti_device_id ti" ?s2] v s2 by simp
      from a None Some v s3 show ?thesis
        by (cases r3)
          (auto simp add: vxlan_create_tunnel_controller_endpoint_def Let_def tenant_state_log_net)
    qed
  qed
qed

lemma tenant_state_destroy_last_tunnel:
  assumes "k \<noteq> t"
  shows "tenant_state (snd (destroy_last_tunnel t n s)) k = tenant_state s k"
  using assms
  by (auto simp add: destroy_last_tunnel_def Let_def tenant_state_kept
      split: option.splits prod.splits)

lemma tenant_state_destroy:
  assumes "k \<noteq> ''0''"
  shows "tenant_state (snd (vxlan_destroy_tunnel_controller_endpoint ti s)) k = tenant_state s k"
proof (cases "get_device_mgmtip ''0'' (Device (ti_device_id ti)) s")
  case None
  then show ?thesis by (simp add: vxlan_destroy_tunnel_controller_endpoint_def)
next
  case (Some a)
  obtain ip m where a: "a = (ip, m)" by (cases a)
  let ?s1 = "log_net (RemoveIpNeigh (name s @ ''-0'') ip) s"
  let ?s2 = "log_net (RemoveFdbEntry (name s @ ''-0'') (get_device_vtep_mac (ti_device_id ti) ?s1)) ?s1"
  let ?s4 = "release_ipv6_address (ti_device_id ti) ''0'' (release_ipv4_address (ti_device_id ti) ''0'' ?s2)"
  have s4: "tenant_state ?s4 k = tenant_state s k"
    using assms by (simp add: tenant_state_kept)
  obtain e5 s5 where d: "destroy_last_tunnel ''0'' (name s @ ''-0'') ?s4 = (e5, s5)"
    by (cases "destroy_last_tunnel ''0'' (name s @ ''-0'') ?s4")
  have s5: "tenant_state s5 k = tenant_state s k"
    using tenant_state_destroy_last_tunnel[OF assms, of "name s @ ''-0''" ?s4] d s4 by simp
  from Some a d s4 s5 show ?thesis
    by (cases e5) (simp_all add: vxlan_destroy_tunnel_controller_endpoint_def Let_def)
qed

lemma create_ignores_tenantid:
  "vxlan_create_tunnel_controller_endpoint env (ti\<lparr>ti_tenantid := t\<rparr>) s =
     (case vxlan_create_tunnel_controller_endpoint env ti s of
        (r, ti', s') \<Rightarrow> (r, ti'\<lparr>ti_tenantid := t\<rparr>, s'))"
  by (simp add: vxlan_create_tunnel_controller_endpoint_def Let_def
      split: prod.splits option.splits sum.splits)

lemma destroy_ignores_tenantid:
  "vxlan_destroy_tunnel_controller_endpoint (ti\<lparr>ti_tenantid := t\<rparr>) s =
     vxlan_destroy_tunnel_controller_endpoint ti s"
  by (simp add: vxlan_destroy_tunnel_controller_endpoint_def)

lemma restrict_upd_same: "(m |` {k})(k := v) = (m(k := v)) |` {k}"
  by (auto simp add: restrict_map_def fun_eq_iff)

lemma only_tenant_log_net: "log_net c (only_tenant k s) = only_tenant k (log_net c s)"
  by (simp add: log_net_def only_tenant_def)

lemma only_tenant_init: "init_tenantid k (only_tenant k s) = only_tenant k (init_tenantid k s)"
  by (simp add: init_tenantid_def only_tenant_def restrict_upd_same)

lemma only_tenant_release: "release_tenantid k (only_tenant k s) = only_tenant k (release_tenantid k s)"
  by (simp add: release_tenantid_def only_tenant_def restrict_upd_same)

lemma only_tenant_v4:
  "get_new_mgmt_ipv4 sl k (only_tenant k s) =
     (fst (get_new_mgmt_ipv4 sl k s), only_tenant k (snd (get_new_mgmt_ipv4 sl k s)))"
  by (simp add: get_new_mgmt_ipv4_def only_tenant_def restrict_upd_same Let_def
      split: option.splits prod.splits)

lemma only_tenant_v6:
  "get_new_mgmt_ipv6 sl k (only_tenant k s) =
     (fst (get_new_mgmt_ipv6 sl k s), only_tenant k (snd (get_new_mgmt_ipv6 sl k s)))"
  by (simp add: get_new_mgmt_ipv6_def only_tenant_def restrict_upd_same Let_def
      split: option.splits prod.splits)

lemma only_tenant_rel4:
  "release_ipv4_address d k (only_tenant k s) = only_tenant k (release_ipv4_address d k s)"
  by (simp add: release_ipv4_address_def only_tenant_def restrict_upd_same split: option.splits)

lemma only_tenant_rel6:
  "release_ipv6_address d k (only_tenant k s) = only_tenant k (release_ipv6_address d k s)"
  by (simp add: release_ipv6_address_def only_tenant_def restrict_upd_same split: option.splits)

lemma only_tenant_reads:
  "num_addresses k (only_tenant k s) = num_addresses k s"
  "get_device_vtep_mac d (only_tenant k s) = get_device_vtep_mac d s"
  "get_device_mgmtipv4 k sl (only_tenant k s) = get_device_mgmtipv4 k sl s"
  "get_device_mgmtipv6 k sl (only_tenant k s) = get_device_mgmtipv6 k sl s"
  "name (only_tenant k s) = name s"
  "controller_ip (only_tenant k s) = controller_ip s"
  "k \<in> initiated (only_tenant k s) \<longleftrightarrow> k \<in> initiated s"
  by (simp_all add: num_addresses_def get_device_vtep_mac_def get_device_mgmtipv4_def
      get_device_mgmtipv6_def only_tenant_def)

lemma only_tenant_mgmtip:
  "get_device_mgmtip t sl (only_tenant ''0'' s) = get_device_mgmtip t sl s"
  by (simp add: get_device_mgmtip_def only_tenant_reads Let_def split: option.splits)

lemma only_tenant_upd:
  "(only_tenant k s)\<lparr>initiated := insert k (initiated (only_tenant k s))\<rparr> =
     only_tenant k (s\<lparr>initiated := insert k (initiated s)\<rparr>)"
  "(only_tenant k s)\<lparr>initiated := initiated (only_tenant k s) - {k}\<rparr> =
     only_tenant k (s\<lparr>initiated := initiated s - {k}\<rparr>)"
  "(only_tenant k s)\<lparr>device_to_mac_addr := f (device_to_mac_addr (only_tenant k s))\<rparr> =
     only_tenant k (s\<lparr>device_to_mac_addr := f (device_to_mac_addr s)\<rparr>)"
  by (auto simp add: only_tenant_def)

lemma only_tenant_first:
  "create_first_tunnel k n (only_tenant k s) =
     (fst (create_first_tunnel k n s), only_tenant k (snd (create_first_tunnel k n s)))"
  by (simp add: create_first_tunnel_def Let_def only_tenant_upd only_tenant_init only_tenant_v4
      only_tenant_v6 only_tenant_log_net only_tenant_reads split: prod.splits sum.splits)

lemma only_tenant_vtep:
  "vtep_addresses f d k (only_tenant k s) =
     (fst (vtep_addresses f d k s), only_tenant k (snd (vtep_addresses f d k s)))"
  by (cases f) (simp_all add: vtep_addresses_def only_tenant_v4 only_tenant_v6
      split: prod.splits sum.splits)

lemma only_tenant_last:
  "destroy_last_tunnel k n (only_tenant k s) =
     (fst (destroy_last_tunnel k n s), only_tenant k (snd (destroy_last_tunnel k n s)))"
  by (simp add: destroy_last_tunnel_def Let_def only_tenant_upd only_tenant_release
      only_tenant_log_net only_tenant_reads split: prod.splits option.splits)

lemma only_tenant_create:
  "vxlan_create_tunnel_controller_endpoint env ti (only_tenant ''0'' s) =
     (case vxlan_create_tunnel_controller_endpoint env ti s of
        (r, ti', s') \<Rightarrow> (r, ti', only_tenant ''0'' s'))"
  by (simp add: vxlan_create_tunnel_controller_endpoint_def Let_def only_tenant_first
      only_tenant_vtep only_tenant_upd(3)[where f="\<lambda>m. m(a \<mapsto> b)" for a b] only_tenant_log_net only_tenant_reads
      split: prod.splits option.splits sum.splits)

lemma only_tenant_destroy:
  "vxlan_destroy_tunnel_controller_endpoint ti (only_tenant ''0'' s) =
     (case vxlan_destroy_tunnel_controller_endpoint ti s of
        (r, s') \<Rightarrow> (r, only_tenant ''0'' s'))"
  by (simp add: vxlan_destroy_tunnel_controller_endpoint_def Let_def only_tenant_last
      only_tenant_rel4 only_tenant_rel6 only_tenant_log_net only_tenant_reads only_tenant_mgmtip
      split: prod.splits option.splits sum.splits)

lemmas vxlan_defs = vxlan_create_tunnel_controller_endpoint_def
  vxlan_destroy_tunnel_controller_endpoint_def create_first_tunnel_def destroy_last_tunnel_def
  vtep_addresses_def get_new_mgmt_ipv4_def get_new_mgmt_ipv6_def release_ipv4_address_def
  release_ipv6_address_def num_addresses_def get_device_vtep_mac_def get_device_mgmtip_def
  get_device_mgmtipv4_def get_device_mgmtipv6_def init_tenantid_def release_tenantid_def
  next_address_def release_address_def log_net_def Let_def

lemmas example_vxlan_defs = example_vxlan_def example_env_def example_tunnel_info_def

lemma example_vxlan_after_a_value:
  "example_vxlan_after_a =
     example_vxlan
       \<lparr>initiated := {''0''},
        device_to_mac_addr := [''a'' \<mapsto> ''02:00:00:00:00:02''],
        device_to_mgmt_ipv4 := [''0'' \<mapsto> [(Controller, 1, 16), (Device ''a'', 2, 16)]],
        device_to_mgmt_ipv6 := [''0'' \<mapsto> [(Controller, 1, 64)]],
        ipv4_pools := [''0'' \<mapsto> \<lparr>prefixlen = 16, next_host = 3, released = []\<rparr>],
        ipv6_pools := [''0'' \<mapsto> \<lparr>prefixlen = 64, next_host = 2, released = []\<rparr>],
        net := [CreateVxlan ''vxlan-0'' 0 ''2001:db8::1'' 4789 4789 4790 True True False False,
                EnableInterface ''vxlan-0'', AddAddress ''vxlan-0'' 1 64,
                AddAddress ''vxlan-0'' 1 16,
                CreateFdbEntry ''vxlan-0'' ''02:00:00:00:00:02'' ''203.0.113.5'' 4789,
                CreateIpNeigh ''vxlan-0'' ''02:00:00:00:00:02'' 2]\<rparr>"
  by (simp add: example_vxlan_after_a_def vxlan_defs example_vxlan_defs VXLAN_DSTPORT_def
      ENABLE_UDP_CSUM_def MGMT_VNI_def numeral_2_eq_2 numeral_3_eq_3)

text \<open>
  C2, as amended. The two operations of the VXLAN mode take no account of the tenant id
  of the request: their result, the state they leave and their calls to the operating
  system are the same whatever that tenant id. For the device of any tenant they read
  and change the address maps, the address pools and the initiation mark that the
  object keeps under the one tenant id \<^verbatim>\<open>'0'\<close>. What the object keeps under any other
  tenant id is not changed, and not read: the operations give the same result on the
  object without it.
\<close>

theorem vxlan_endpoints_use_tenant_zero:
  assumes "k \<noteq> ''0''"
  shows "tenant_state (snd (snd (vxlan_create_tunnel_controller_endpoint env ti s))) k =
           tenant_state s k
     \<and> tenant_state (snd (vxlan_destroy_tunnel_controller_endpoint ti s)) k = tenant_state s k
     \<and> vxlan_create_tunnel_controller_endpoint env (ti\<lparr>ti_tenantid := t\<rparr>) s =
         (case vxlan_create_tunnel_controller_endpoint env ti s of
            (r, ti', s') \<Rightarrow> (r, ti'\<lparr>ti_tenantid := t\<rparr>, s'))
     \<and> vxlan_destroy_tunnel_controller_endpoint (ti\<lparr>ti_tenantid := t\<rparr>) s =
         vxlan_destroy_tunnel_controller_endpoint ti s
     \<and> vxlan_create_tunnel_controller_endpoint env ti (only_tenant ''0'' s) =
         (case vxlan_create_tunnel_controller_endpoint env ti s of
            (r, ti', s') \<Rightarrow> (r, ti', only_tenant ''0'' s'))
     \<and> vxlan_destroy_tunnel_controller_endpoint ti (only_tenant ''0'' s) =
         (case vxlan_destroy_tunnel_controller_endpoint ti s of
            (r, s') \<Rightarrow> (r, only_tenant ''0'' s'))"
  using tenant_state_create[OF assms] tenant_state_destroy[OF assms]
    create_ignores_tenantid destroy_ignores_tenantid only_tenant_create only_tenant_destroy
  by (intro conjI)

text \<open>
  The claim as stated fails. After the endpoint of device \<open>a\<close> of tenant \<open>1\<close> has
  been created, the creation for device \<open>b\<close> of tenant \<open>2\<close> yields the address 3
  where it yields 2 on a fresh object, and the destruction for a device \<open>a\<close> of
  tenant \<open>2\<close> succeeds, releases the address held by the device of tenant \<open>1\<close> and
  removes the interface.
\<close>

theorem vxlan_tenants_not_isolated:
  "ti_tenantid (example_tunnel_info ''a'' ''1'' ''203.0.113.5'') \<noteq>
     ti_tenantid (example_tunnel_info ''b'' ''2'' ''203.0.113.6'')
   \<and> ti_device_vtep_ip (fst (snd (vxlan_create_tunnel_controller_endpoint example_env
         (example_tunnel_info ''b'' ''2'' ''203.0.113.6'') example_vxlan))) = Some 2
   \<and> ti_device_vtep_ip (fst (snd (vxlan_create_tunnel_controller_endpoint example_env
         (example_tunnel_info ''b'' ''2'' ''203.0.113.6'') example_vxlan_after_a))) = Some 3
   \<and> get_device_mgmtip ''1'' (Device ''a'') example_vxlan_after_a = Some (2, 16)
   \<and> fst (vxlan_destroy_tunnel_controller_endpoint
            (example_tunnel_info ''a'' ''2'' ''203.0.113.5'') example_vxlan_after_a) =
       Inr STATUS_SUCCESS
   \<and> get_device_mgmtip ''1'' (Device ''a'')
        (snd (vxlan_destroy_tunnel_controller_endpoint
                (example_tunnel_info ''a'' ''2'' ''203.0.113.5'') example_vxlan_after_a)) = None
   \<and> last (net (snd (vxlan_destroy_tunnel_controller_endpoint
                       (example_tunnel_info ''a'' ''2'' ''203.0.113.5'') example_vxlan_after_a))) =
       RemoveInterface ''vxlan-0''"
  by (simp add: example_vxlan_after_a_value vxlan_defs example_vxlan_defs VXLAN_DSTPORT_def
      ENABLE_UDP_CSUM_def MGMT_VNI_def numeral_2_eq_2 numeral_3_eq_3)

theorem vxlan_endpoints_use_tenant_zero_witness:
  "''1'' \<noteq> ''0''
   \<and> tenant_state (snd (snd (vxlan_create_tunnel_controller_endpoint example_env
        (example_tunnel_info ''a'' ''1'' ''203.0.113.5'') example_vxlan))) ''1'' =
       (None, None, None, None, False)
   \<and> vxlan_destroy_tunnel_controller_endpoint
        (example_tunnel_info ''a'' ''1'' ''203.0.113.5''\<lparr>ti_tenantid := ''2''\<rparr>)
        example_vxlan_after_a =
       vxlan_destroy_tunnel_controller_endpoint
         (example_tunnel_info ''a'' ''1'' ''203.0.113.5'') example_vxlan_after_a"
proof -
  have other: "''1'' \<noteq> ''0''"
    by simp
  have fresh: "tenant_state example_vxlan ''1'' = (None, None, None, None, False)"
    by (simp add: tenant_state_def example_vxlan_def)
  from vxlan_endpoints_use_tenant_zero [OF other, of example_env
         "example_tunnel_info ''a'' ''1'' ''203.0.113.5''" example_vxlan "''2''"]
       vxlan_endpoints_use_tenant_zero [OF other, of example_env
         "example_tunnel_info ''a'' ''1'' ''203.0.113.5''" example_vxlan_after_a "''2''"]
       fresh other
  show ?thesis by (elim conjE) simp
qed


end
